theory Spec2Isabelle
  imports Complex_Main
begin

section \<open>JavaScript numbers\<close>

text \<open>
  Timestamps (\<open>Date.now()\<close>) are whole milliseconds and are modelled as \<open>int\<close>;
  durations taken from the configuration are whole non-negative milliseconds (\<open>nat\<close>).
  The numbers of the uptime percentage, of the reward amount and of the memory percentage
  are IEEE 754 binary64 values (\<open>jsnum\<close>): a finite one is written as the real number it
  denotes, next to \<open>Infinity\<close>, \<open>-Infinity\<close> and \<open>NaN\<close>, and every product and quotient is
  rounded. The sign of zero is not modelled. Readings that are stored or handed on (the
  cpu usage, the client uptime, sizes and counters) and the delay of a reconnect are
  written as reals without rounding.
\<close>

datatype jsnum = Num real | PosInf | NegInf | NaN

text \<open>
  Rounding to the nearest binary64 value, ties to the even significand. A positive \<open>x\<close>
  is brought to \<open>a * 2^e\<close> with \<open>1 \<le> a < 2\<close> by halving or doubling (\<open>s\<close> is \<open>2^e\<close>); the
  significand keeps 52 binary places. Below \<open>2^-1022\<close> the values are the multiples of
  \<open>2^-1074\<close>; a result of \<open>2^1024\<close> or more is \<open>Infinity\<close>.
\<close>

definition round_half_even :: "real \<Rightarrow> int" where
  "round_half_even y =
     (let f = \<lfloor>y\<rfloor>; d = y - of_int f
      in if d < 1 / 2 then f else if 1 / 2 < d then f + 1 else if even f then f else f + 1)"

function scale_down :: "real \<Rightarrow> real \<Rightarrow> int \<Rightarrow> real \<times> real \<times> int" where
  "scale_down a s e = (if 2 \<le> a then scale_down (a / 2) (s * 2) (e + 1) else (a, s, e))"
  by pat_completeness auto
termination
proof (relation "measure (\<lambda>(a, s, e). nat \<lceil>a\<rceil>)")
  show "wf (measure (\<lambda>(a, s, e). nat \<lceil>a\<rceil>))" by simp
next
  fix a s :: real and e :: int
  assume "2 \<le> a"
  then have "a / 2 \<le> a - 1" by simp
  then have "\<lceil>a / 2\<rceil> \<le> \<lceil>a - 1\<rceil>" by (rule ceiling_mono)
  also have "\<dots> = \<lceil>a\<rceil> - 1" by simp
  finally have "\<lceil>a / 2\<rceil> < \<lceil>a\<rceil>" by simp
  moreover from \<open>2 \<le> a\<close> have "0 < \<lceil>a\<rceil>" by (simp add: less_ceiling_iff)
  ultimately show "((a / 2, s * 2, e + 1), (a, s, e)) \<in> measure (\<lambda>(a, s, e). nat \<lceil>a\<rceil>)"
    by simp
qed

function scale_up :: "real \<Rightarrow> real \<Rightarrow> int \<Rightarrow> real \<times> real \<times> int" where
  "scale_up a s e = (if 0 < a \<and> a < 1 then scale_up (a * 2) (s / 2) (e - 1) else (a, s, e))"
  by pat_completeness auto
termination
proof (relation "measure (\<lambda>(a, s, e). nat \<lceil>1 / a\<rceil>)")
  show "wf (measure (\<lambda>(a, s, e). nat \<lceil>1 / a\<rceil>))" by simp
next
  fix a s :: real and e :: int
  assume "0 < a \<and> a < 1"
  then have a: "0 < a" "a < 1" by simp_all
  define y where "y = 1 / a"
  from a have y: "1 < y" by (simp add: y_def)
  then have c: "2 \<le> \<lceil>y\<rceil>" by (simp add: le_ceiling_iff)
  have "y / 2 \<le> of_int \<lceil>y\<rceil> / 2" by (simp add: le_of_int_ceiling)
  also have "\<dots> \<le> of_int (\<lceil>y\<rceil> - 1)" using c by simp
  finally have "\<lceil>y / 2\<rceil> \<le> \<lceil>y\<rceil> - 1" by (rule ceiling_le)
  then have "\<lceil>y / 2\<rceil> < \<lceil>y\<rceil>" by simp
  moreover have "1 / (a * 2) = y / 2" by (simp add: y_def)
  ultimately have "\<lceil>1 / (a * 2)\<rceil> < \<lceil>1 / a\<rceil>" by (simp only: y_def)
  moreover from c have "0 < \<lceil>1 / a\<rceil>" by (simp only: y_def)
  ultimately show "((a * 2, s / 2, e - 1), (a, s, e)) \<in> measure (\<lambda>(a, s, e). nat \<lceil>1 / a\<rceil>)"
    by simp
qed

declare scale_down.simps [simp del] scale_up.simps [simp del]

definition nearest_double :: "real \<Rightarrow> jsnum" where
  "nearest_double x =
     (let (a, s, e) = (if 1 \<le> x then scale_down x 1 0 else scale_up x 1 0)
      in if e < - 1022 then Num (of_int (round_half_even (x * 2 ^ 1074)) / 2 ^ 1074)
         else let n = round_half_even (a * 2 ^ 52)
              in if 1023 < e \<or> (e = 1023 \<and> n = 2 ^ 53) then PosInf
                 else Num (of_int n * s / 2 ^ 52))"

text \<open>
  The binary64 value a real stands for. Readings, configuration values and stored fields
  enter a binary64 computation through \<open>js_num\<close>, which leaves a binary64 value as it
  is: a stored client uptime of \<open>1017 / 1000\<close> is the number that the literal \<open>1.017\<close> and
  the quotient \<open>1017 / 1000\<close> denote in the code.
\<close>

definition js_num :: "real \<Rightarrow> jsnum" where
  "js_num x =
     (if x = 0 then Num 0
      else if 0 < x then nearest_double x
      else case nearest_double (- x) of
             Num r \<Rightarrow> Num (- r) | PosInf \<Rightarrow> NegInf | NegInf \<Rightarrow> PosInf | NaN \<Rightarrow> NaN)"

text \<open>
  \<open>x * y\<close> and \<open>x / y\<close> on binary64 values: the exact result, rounded. A division by zero
  gives \<open>Infinity\<close>, \<open>-Infinity\<close> or \<open>NaN\<close>.
\<close>

fun js_mul :: "jsnum \<Rightarrow> jsnum \<Rightarrow> jsnum" where
  "js_mul NaN _ = NaN"
| "js_mul _ NaN = NaN"
| "js_mul (Num a) (Num b) = js_num (a * b)"
| "js_mul (Num a) PosInf = (if a = 0 then NaN else if 0 < a then PosInf else NegInf)"
| "js_mul (Num a) NegInf = (if a = 0 then NaN else if 0 < a then NegInf else PosInf)"
| "js_mul PosInf (Num b) = (if b = 0 then NaN else if 0 < b then PosInf else NegInf)"
| "js_mul NegInf (Num b) = (if b = 0 then NaN else if 0 < b then NegInf else PosInf)"
| "js_mul PosInf PosInf = PosInf"
| "js_mul PosInf NegInf = NegInf"
| "js_mul NegInf PosInf = NegInf"
| "js_mul NegInf NegInf = PosInf"

fun js_div :: "jsnum \<Rightarrow> jsnum \<Rightarrow> jsnum" where
  "js_div NaN _ = NaN"
| "js_div _ NaN = NaN"
| "js_div (Num a) (Num b) =
     (if b = 0 then (if a = 0 then NaN else if 0 < a then PosInf else NegInf)
      else js_num (a / b))"
| "js_div (Num a) PosInf = Num 0"
| "js_div (Num a) NegInf = Num 0"
| "js_div PosInf (Num b) = (if 0 \<le> b then PosInf else NegInf)"
| "js_div NegInf (Num b) = (if 0 \<le> b then NegInf else PosInf)"
| "js_div PosInf PosInf = NaN"
| "js_div PosInf NegInf = NaN"
| "js_div NegInf PosInf = NaN"
| "js_div NegInf NegInf = NaN"

text \<open>The comparison \<open>x >= y\<close>: false as soon as one side is \<open>NaN\<close>.\<close>

fun js_ge :: "jsnum \<Rightarrow> jsnum \<Rightarrow> bool" where
  "js_ge NaN _ = False"
| "js_ge _ NaN = False"
| "js_ge (Num a) (Num b) = (b \<le> a)"
| "js_ge PosInf _ = True"
| "js_ge _ NegInf = True"
| "js_ge (Num a) PosInf = False"
| "js_ge NegInf (Num b) = False"
| "js_ge NegInf PosInf = False"


section \<open>Configuration (config/default.js)\<close>

record config =
  monitoring_interval :: nat
  metrics_cpu :: bool
  metrics_memory :: bool
  metrics_disk :: bool
  metrics_network :: bool
  metrics_uptime :: bool
  rewardAmount :: real
  rewardInterval :: nat
  reconnectInterval :: nat
  maxReconnectAttempts :: nat

text \<open>The values the repository ships (no environment variable set).\<close>

definition default_config :: config where
  "default_config =
     \<lparr> monitoring_interval = 60000,
       metrics_cpu = True, metrics_memory = True, metrics_disk = True,
       metrics_network = True, metrics_uptime = True,
       rewardAmount = 1 / 10, rewardInterval = 86400000,
       reconnectInterval = 5000, maxReconnectAttempts = 10 \<rparr>"


section \<open>Metric snapshots (the object built by collectMetrics)\<close>

record system_info =
  sys_platform :: string
  sys_arch :: string
  sys_hostname :: string
  sys_uptime :: real

record cpu_info =
  cpu_usage :: real
  cpu_cores :: nat
  cpu_model :: string
  cpu_speed :: real

record memory_info =
  mem_total :: real
  mem_free :: real
  mem_used :: real
  mem_usagePercentage :: jsnum

record disk_entry =
  disk_fs :: string
  disk_type :: string
  disk_size :: real
  disk_used :: real
  disk_available :: real
  disk_usagePercentage :: real

record network_entry =
  net_interface :: string
  net_rxBytes :: real
  net_txBytes :: real
  net_rxErrors :: real
  net_txErrors :: real

record uptime_info =
  up_system :: real
  up_process :: real
  up_client :: real

text \<open>
  A domain that collects a list is, in the snapshot, the empty object \<open>{}\<close> it was
  initialised with (\<open>NoReading\<close>), the mapped list (\<open>Readings\<close>), or the error marker
  \<open>{ error: message }\<close> (\<open>ErrorMarker\<close>).
\<close>

datatype 'a domain_reading = NoReading | Readings "'a list" | ErrorMarker string

record check_result =
  cr_success :: bool
  cr_error :: "string option"
  cr_statusCode :: "nat option"
  cr_responseTime :: "int option"
  cr_contentValid :: "bool option"
  cr_responseTimeValid :: "bool option"
  cr_timestamp :: int

record task_status =
  ts_id :: string
  ts_name :: string
  ts_type :: string
  ts_target :: string
  ts_lastRunTime :: "int option"
  ts_lastResult :: "(bool \<times> int) option"

text \<open>
  \<open>m_cpu\<close> and \<open>m_memory\<close> are \<open>None\<close> for the empty object \<open>{}\<close>; \<open>m_uptime\<close> and
  \<open>m_tasks\<close> are \<open>None\<close> when the key is absent (\<open>undefined\<close>).
\<close>

record metrics =
  m_timestamp :: int
  m_system :: system_info
  m_cpu :: "cpu_info option"
  m_memory :: "memory_info option"
  m_disk :: "disk_entry domain_reading"
  m_network :: "network_entry domain_reading"
  m_uptime :: "uptime_info option"
  m_tasks :: "task_status list option"


section \<open>The connectivity manager (services/websocket.js)\<close>

subsection \<open>Messages and state\<close>

datatype priority = High | Normal | Low

datatype payload =
    PingData "string option" int
  | AuthData "string option" "string option"
  | MetricsData "string option" "string option" metrics
  | TaskResultData string string string check_result int
  | TaskErrorData string string string string int
  | ShutdownData "string option" string
  | OtherData string

record message =
  msg_type :: string
  msg_data :: payload
  msg_timestamp :: int
  msg_priority :: priority

text \<open>What services/user.js exposes: \<open>isRegistered()\<close> and \<open>getUserData()\<close>.\<close>

record user_data =
  registered :: bool
  publicKey :: "string option"
  nodeId :: "string option"

text \<open>
  The timer held in \<open>reconnectTimeout\<close>. The variable keeps the timer object after it has
  fired (only handleOpen sets it back to \<open>null\<close>), so the timer records whether it is
  still pending.
\<close>

datatype timer_kind = ReconnectTimer | CooldownTimer

record timer =
  t_delay :: real
  t_kind :: timer_kind
  t_pending :: bool

text \<open>
  The module variables of websocket.js (\<open>ws_exists\<close>: \<open>ws\<close> is not \<open>null\<close>;
  \<open>pingInterval\<close>: the variable holds an interval), and the transport seen from the module:
  \<open>ws_script\<close> gives the outcome of the coming calls of \<open>ws.send\<close> (\<open>False\<close>: the call
  throws; once the script is used up every call succeeds), \<open>ws_log\<close> records every call of
  \<open>ws.send\<close> with its outcome, in order.
\<close>

record conn =
  ws_exists :: bool
  isConnected :: bool
  reconnectAttempts :: nat
  reconnectTimeout :: "timer option"
  pingInterval :: bool
  pendingMessages :: "message list"
  connectionStartTime :: "int option"
  ws_script :: "bool list"
  ws_log :: "(message \<times> bool) list"

definition initial_conn :: conn where
  "initial_conn =
     \<lparr> ws_exists = False, isConnected = False, reconnectAttempts = 0,
       reconnectTimeout = None, pingInterval = False, pendingMessages = [],
       connectionStartTime = None, ws_script = [], ws_log = [] \<rparr>"

text \<open>
  What the environment decides during one call: the clock, the draw of \<open>Math.random()\<close>,
  whether \<open>new WebSocket(url)\<close> returns, and the user service's data.
\<close>

record env =
  now :: int
  random :: real
  ws_ctor_ok :: bool
  user :: user_data

subsection \<open>Reconnecting\<close>

definition scheduleReconnect :: "config \<Rightarrow> env \<Rightarrow> conn \<Rightarrow> conn" where
  "scheduleReconnect cfg e c =
     (let n = reconnectAttempts c + 1;
          c1 = c\<lparr>reconnectAttempts := n\<rparr>
      in if n \<le> maxReconnectAttempts cfg then
           (let baseDelay = real (reconnectInterval cfg);
                maxDelay = min 30000 (baseDelay * 2 ^ (n - 1));
                jitter = random e * (3 / 10) * maxDelay;
                delay = min (maxDelay + jitter) 60000
            in c1\<lparr>reconnectTimeout :=
                    Some \<lparr>t_delay = delay, t_kind = ReconnectTimer, t_pending = True\<rparr>\<rparr>)
         else
           c1\<lparr>reconnectTimeout :=
                 Some \<lparr>t_delay = 300000, t_kind = CooldownTimer, t_pending = True\<rparr>\<rparr>)"

text \<open>
  connect: the old socket is terminated (an error there is swallowed), the start time is
  recorded, and a constructor that throws leads to scheduleReconnect.
\<close>

definition connect :: "config \<Rightarrow> env \<Rightarrow> conn \<Rightarrow> conn" where
  "connect cfg e c =
     (let c1 = c\<lparr>connectionStartTime := Some (now e)\<rparr>
      in if ws_ctor_ok e then c1\<lparr>ws_exists := True\<rparr>
         else scheduleReconnect cfg e c1)"

subsection \<open>Sending\<close>

definition ws_send_ok :: "conn \<Rightarrow> bool" where
  "ws_send_ok c = (case ws_script c of [] \<Rightarrow> True | ok # _ \<Rightarrow> ok)"

definition ws_send :: "message \<Rightarrow> conn \<Rightarrow> conn" where
  "ws_send m c = c\<lparr>ws_script := tl (ws_script c), ws_log := ws_log c @ [(m, ws_send_ok c)]\<rparr>"

definition ping_data :: "env \<Rightarrow> payload" where
  "ping_data e = PingData (if registered (user e) then nodeId (user e) else None) (now e)"

text \<open>
  send and checkConnection call each other: a send that fails on an open connection
  calls checkConnection, which probes with a ping through send. Each call of \<open>ws.send\<close>
  consumes one entry of the script, which bounds the recursion; a transport whose every
  call throws, on which the two functions of the source would call each other without
  bound, is outside the model. The \<open>catch\<close> of checkConnection is not a branch of the
  model: send catches the transport's exception itself and sendPing has no other source
  of exceptions.
\<close>

function send :: "config \<Rightarrow> env \<Rightarrow> string \<Rightarrow> payload \<Rightarrow> priority \<Rightarrow> conn \<Rightarrow> bool \<times> conn"
  and checkConnection :: "config \<Rightarrow> env \<Rightarrow> conn \<Rightarrow> bool \<times> conn"
where
  "send cfg e ty d p c =
     (let message = \<lparr>msg_type = ty, msg_data = d, msg_timestamp = now e, msg_priority = p\<rparr>
      in if \<not> isConnected c then
           (False, if p = High then c\<lparr>pendingMessages := pendingMessages c @ [message]\<rparr> else c)
         else if ws_send_ok c then (True, ws_send message c)
         else
           (False,
            snd (checkConnection cfg e
                  (if p = High
                   then (ws_send message c)\<lparr>pendingMessages := pendingMessages c @ [message]\<rparr>
                   else ws_send message c))))"
| "checkConnection cfg e c =
     (if \<not> isConnected c then
        (False, if reconnectTimeout c = None then connect cfg e c else c)
      else (True, snd (send cfg e ''ping'' (ping_data e) Low c)))"
  by pat_completeness auto
termination
proof (relation "measure (\<lambda>x. case x of
          Inl (cfg, e, ty, d, p, c) \<Rightarrow> 2 * length (ws_script c) + 1
        | Inr (cfg, e, c) \<Rightarrow> 2 * length (ws_script c) + 2)")
  show "wf (measure (\<lambda>x. case x of
          Inl (cfg, e, ty, d, p, c) \<Rightarrow> 2 * length (ws_script c) + 1
        | Inr (cfg, e, c) \<Rightarrow> 2 * length (ws_script c) + 2))"
    by simp
qed (auto simp: ws_send_ok_def ws_send_def split: list.splits)

definition sendPing :: "config \<Rightarrow> env \<Rightarrow> conn \<Rightarrow> conn" where
  "sendPing cfg e c = snd (send cfg e ''ping'' (ping_data e) Low c)"

definition authenticate ::
  "config \<Rightarrow> env \<Rightarrow> string option \<Rightarrow> string option \<Rightarrow> conn \<Rightarrow> conn" where
  "authenticate cfg e nid pk c = snd (send cfg e ''authenticate'' (AuthData nid pk) High c)"

definition sendMetrics :: "config \<Rightarrow> env \<Rightarrow> metrics \<Rightarrow> conn \<Rightarrow> bool \<times> conn" where
  "sendMetrics cfg e m c =
     (if \<not> registered (user e) then (False, c)
      else send cfg e ''metrics'' (MetricsData (nodeId (user e)) (publicKey (user e)) m) Normal c)"

definition isSocketConnected :: "conn \<Rightarrow> bool" where
  "isSocketConnected c = isConnected c"

subsection \<open>Transport events\<close>

text \<open>
  The last block of handleOpen: the queue is copied and emptied, then each message of the
  copy goes to \<open>ws.send\<close> in turn; one that fails is put back if its priority is high.
\<close>

definition flush_one :: "conn \<Rightarrow> message \<Rightarrow> conn" where
  "flush_one c m =
     (if ws_send_ok c then ws_send m c
      else if msg_priority m = High
           then (ws_send m c)\<lparr>pendingMessages := pendingMessages c @ [m]\<rparr>
           else ws_send m c)"

definition flushPending :: "conn \<Rightarrow> conn" where
  "flushPending c =
     (if pendingMessages c \<noteq> [] then
        (let messagesToSend = pendingMessages c
         in foldl flush_one (c\<lparr>pendingMessages := []\<rparr>) messagesToSend)
      else c)"

text \<open>handleOpen up to the flush: flags, timer, ping interval, authentication.\<close>

definition handleOpen_begin :: "config \<Rightarrow> env \<Rightarrow> conn \<Rightarrow> conn" where
  "handleOpen_begin cfg e c =
     (let c1 = c\<lparr>isConnected := True, reconnectAttempts := 0\<rparr>;
          c2 = c1\<lparr>reconnectTimeout := None\<rparr>;
          c3 = c2\<lparr>pingInterval := True\<rparr>
      in if registered (user e)
         then authenticate cfg e (nodeId (user e)) (publicKey (user e)) c3
         else c3)"

definition handleOpen :: "config \<Rightarrow> env \<Rightarrow> conn \<Rightarrow> conn" where
  "handleOpen cfg e c = flushPending (handleOpen_begin cfg e c)"

definition handleError :: "env \<Rightarrow> conn \<Rightarrow> conn" where
  "handleError e c =
     (case connectionStartTime c of
        Some t \<Rightarrow>
          if t \<noteq> 0 \<and> now e - t < 5000
          then c\<lparr>reconnectAttempts := reconnectAttempts c + 2\<rparr> else c
      | None \<Rightarrow> c)"

definition handleClose :: "config \<Rightarrow> env \<Rightarrow> conn \<Rightarrow> conn" where
  "handleClose cfg e c =
     scheduleReconnect cfg e (c\<lparr>isConnected := False, pingInterval := False\<rparr>)"

text \<open>
  The callback of the timer in \<open>reconnectTimeout\<close> runs when the timer is still pending:
  the reconnect timer calls connect, the cooldown timer resets the counter first.
\<close>

definition fireReconnectTimeout :: "config \<Rightarrow> env \<Rightarrow> conn \<Rightarrow> conn" where
  "fireReconnectTimeout cfg e c =
     (case reconnectTimeout c of
        None \<Rightarrow> c
      | Some t \<Rightarrow>
          if \<not> t_pending t then c
          else (let c1 = c\<lparr>reconnectTimeout := Some (t\<lparr>t_pending := False\<rparr>)\<rparr>
                in case t_kind t of
                     ReconnectTimer \<Rightarrow> connect cfg e c1
                   | CooldownTimer \<Rightarrow> connect cfg e (c1\<lparr>reconnectAttempts := 0\<rparr>)))"

text \<open>The callback of the ping interval set by handleOpen.\<close>

definition pingTick :: "config \<Rightarrow> env \<Rightarrow> conn \<Rightarrow> conn" where
  "pingTick cfg e c = (if isConnected c then sendPing cfg e c else c)"

text \<open>
  Inbound messages by type. On the connection state itself only the shutdown notice acts
  at once; the handlers of \<open>requestMetrics\<close> and \<open>task\<close> first await a collection and
  then call sendMetrics or send, which are events of their own.
\<close>

datatype inbound =
  AuthResponse | Pong | RequestMetrics | Reward | Task | ServerShutdown | UnknownType

definition handleMessage :: "inbound \<Rightarrow> conn \<Rightarrow> conn" where
  "handleMessage msg c =
     (case msg of
        ServerShutdown \<Rightarrow> c\<lparr>reconnectAttempts := max (reconnectAttempts c) 5\<rparr>
      | _ \<Rightarrow> c)"

text \<open>
  init of websocket.js: it connects; the handlers it registers are handleMessage above and
  the connection check it starts every minute is the event \<open>EvCheckConnection\<close>.
\<close>

definition websocket_init :: "config \<Rightarrow> env \<Rightarrow> conn \<Rightarrow> conn" where
  "websocket_init cfg e c = connect cfg e c"

text \<open>Everything that can happen to the connection state, one event at a time.\<close>

datatype event =
    EvOpen
  | EvMessage inbound
  | EvError
  | EvClose
  | EvReconnectTimeout
  | EvCheckConnection
  | EvPingInterval
  | EvSend string payload priority
  | EvSendMetrics metrics
  | EvConnect

fun step :: "config \<Rightarrow> env \<Rightarrow> event \<Rightarrow> conn \<Rightarrow> conn" where
  "step cfg e EvOpen c = handleOpen cfg e c"
| "step cfg e (EvMessage msg) c = handleMessage msg c"
| "step cfg e EvError c = handleError e c"
| "step cfg e EvClose c = handleClose cfg e c"
| "step cfg e EvReconnectTimeout c = fireReconnectTimeout cfg e c"
| "step cfg e EvCheckConnection c = snd (checkConnection cfg e c)"
| "step cfg e EvPingInterval c = pingTick cfg e c"
| "step cfg e (EvSend ty d p) c = snd (send cfg e ty d p c)"
| "step cfg e (EvSendMetrics m) c = snd (sendMetrics cfg e m c)"
| "step cfg e EvConnect c = connect cfg e c"





declare send.simps [simp del] checkConnection.simps [simp del]

subsection \<open>Vocabulary for the properties\<close>

text \<open>
  The outcomes of the next \<open>n\<close> calls of \<open>ws.send\<close> under a script, and the messages of a
  flush that go back to the queue: those that failed and have high priority.
\<close>

fun outcomes :: "nat \<Rightarrow> bool list \<Rightarrow> bool list" where
  "outcomes 0 s = []"
| "outcomes (Suc n) [] = True # outcomes n []"
| "outcomes (Suc n) (ok # s) = ok # outcomes n s"

definition requeued :: "(message \<times> bool) list \<Rightarrow> message list" where
  "requeued l = map fst (filter (\<lambda>(m, ok). \<not> ok \<and> msg_priority m = High) l)"

text \<open>The message authenticate builds for the registered user.\<close>

definition authenticate_message :: "env \<Rightarrow> message" where
  "authenticate_message e =
     \<lparr> msg_type = ''authenticate'', msg_data = AuthData (nodeId (user e)) (publicKey (user e)),
       msg_timestamp = now e, msg_priority = High \<rparr>"

text \<open>A concrete environment: user not registered, constructor succeeds.\<close>

definition env0 :: env where
  "env0 = \<lparr> now = 1700000000000, random = 1 / 2, ws_ctor_ok = True,
            user = \<lparr> registered = False, publicKey = None, nodeId = None \<rparr> \<rparr>"



section \<open>The monitoring service (services/monitor.js)\<close>

subsection \<open>Tasks, history and the module state\<close>

text \<open>
  \<open>task.interval\<close> is a number of milliseconds or a cron expression; a cron expression
  built from a number of minutes, \<open>*/n * * * *\<close>, is \<open>EveryMinutes n\<close>.
\<close>

datatype interval = Millis real | CronText string

datatype cron_expr = EveryMinutes int | Expression string

text \<open>A task object; an absent \<open>id\<close> or \<open>name\<close> is the empty string (both are falsy).\<close>

record task =
  task_id :: string
  task_name :: string
  task_type :: string
  task_target :: string
  task_interval :: interval
  task_lastRunTime :: "int option"
  task_lastResult :: "check_result option"

record history_point =
  hp_timestamp :: int
  hp_cpu :: "real option"
  hp_memory :: "jsnum option"
  hp_uptime :: real

text \<open>
  \<open>monitoringData.metrics.uptime\<close> is the empty object of the initial state, \<open>undefined\<close>
  after a snapshot without uptime was stored, or a reading.
\<close>

datatype uptime_field = UptimeEmpty | UptimeUndefined | UptimeInfo uptime_info

record current_metrics =
  cur_cpu :: "cpu_info option"
  cur_memory :: "memory_info option"
  cur_disk :: "disk_entry domain_reading"
  cur_network :: "network_entry domain_reading"
  cur_uptime :: uptime_field

text \<open>
  Task objects are shared between \<open>monitoringTasks\<close> and the callbacks that were scheduled
  for them, so the list holds references into a store of task objects.
\<close>

record monitoringData =
  startTime :: int
  lastRewardTime :: "int option"
  metrics :: current_metrics
  monitoringTasks :: "nat list"
  history :: "history_point list"
  errors_count :: nat
  errors_lastError :: "(int \<times> string) option"

text \<open>The callbacks handed to \<open>cron.schedule\<close> and \<open>process.on\<close>.\<close>

datatype signal = SIGTERM | SIGINT

datatype callback =
    MetricsCollection
  | PeriodicPersist
  | TaskRunReporting nat
  | TaskRun nat
  | ShutdownPersist

record job =
  job_cron :: cron_expr
  job_callback :: callback

text \<open>
  The file at \<open>MONITORING_DATA_PATH\<close>. A key of the record is \<open>None\<close> when it is absent
  (for \<open>startTime\<close>: absent or \<open>null\<close>); \<open>lastRewardTime\<close> can be present and \<open>null\<close>.
\<close>

record persisted =
  p_startTime :: "int option"
  p_lastRewardTime :: "int option option"
  p_history :: "history_point list option"
  p_monitoringTasks :: "task list option"

datatype file_state = NoFile | Unparsable | FalsyJson | Data persisted

text \<open>
  The whole agent: the module state of monitor.js, the store of task objects, the
  registered cron jobs and signal handlers (nothing ever unregisters one), the data file,
  the connection, and the amounts handed to \<open>solanaService.sendReward\<close> so far.
\<close>

record world =
  md :: monitoringData
  task_objs :: "nat \<rightharpoonup> task"
  next_ref :: nat
  jobs :: "job list"
  signal_handlers :: "(signal \<times> callback) list"
  data_file :: file_state
  cn :: conn
  rewards :: "jsnum list"

subsection \<open>The environment of one call\<close>

text \<open>
  A provider call that returns a promise: it resolves or rejects after a latency in
  milliseconds, or never settles.
\<close>

datatype 'a provider_call = Resolves nat 'a | Rejects nat string | NeverSettles

record fs_row =
  fs_fs :: string
  fs_type :: string
  fs_size :: real
  fs_used :: real
  fs_available :: real
  fs_use :: real

record net_row =
  nr_iface :: string
  nr_rx_bytes :: real
  nr_tx_bytes :: real
  nr_rx_errors :: real
  nr_tx_errors :: real

record providers =
  os_platform :: string
  os_arch :: string
  os_hostname :: string
  os_uptime :: real
  cpuUsage :: real
  os_cpus :: "(string \<times> real) list"
  os_totalmem :: real
  os_freemem :: real
  si_fsSize :: "fs_row list provider_call"
  si_networkStats :: "net_row list provider_call"
  process_uptime :: real
  uptime_now :: int

text \<open>
  \<open>conn_env\<close>: clock, random draw, socket constructor and user data; \<open>prov\<close>: the metric
  providers; whether the data directory exists or can be created and whether the data
  file can be written; the result of the HTTP check of a task; the outcome of
  \<open>solanaService.sendReward\<close> (an error message or a transaction id); the identifier
  generated for a task without one.
\<close>

record sys =
  conn_env :: env
  prov :: providers
  data_dir_ok :: bool
  fs_write_ok :: bool
  http_result :: check_result
  sendReward :: "jsnum \<Rightarrow> string + string"
  generated_id :: string

definition initial_monitoringData :: "int \<Rightarrow> monitoringData" where
  "initial_monitoringData t =
     \<lparr> startTime = t, lastRewardTime = None,
       metrics = \<lparr> cur_cpu = None, cur_memory = None, cur_disk = NoReading,
                   cur_network = NoReading, cur_uptime = UptimeEmpty \<rparr>,
       monitoringTasks = [], history = [], errors_count = 0, errors_lastError = None \<rparr>"

text \<open>The agent when the modules have been loaded at time \<open>t\<close>, with the data file \<open>f\<close>.\<close>

definition initial_world :: "int \<Rightarrow> file_state \<Rightarrow> world" where
  "initial_world t f =
     \<lparr> md = initial_monitoringData t, task_objs = Map.empty, next_ref = 0, jobs = [],
       signal_handlers = [], data_file = f, cn = initial_conn, rewards = [] \<rparr>"

subsection \<open>Persistence\<close>

text \<open>The task objects behind a list of references, in order.\<close>

definition tasks_of :: "world \<Rightarrow> nat list \<Rightarrow> task list" where
  "tasks_of w refs = List.map_filter (task_objs w) refs"

text \<open>Fresh objects for the tasks parsed from the file.\<close>

fun alloc_tasks :: "task list \<Rightarrow> world \<Rightarrow> nat list \<times> world" where
  "alloc_tasks [] w = ([], w)"
| "alloc_tasks (t # ts) w =
     (let r = next_ref w;
          (rs, w') = alloc_tasks ts (w\<lparr>task_objs := (task_objs w)(r \<mapsto> t), next_ref := r + 1\<rparr>)
      in (r # rs, w'))"

text \<open>
  loadPersistedData: nothing is loaded when the data directory cannot be created, the
  file is absent, reading or parsing throws, or the parsed value is falsy. Otherwise the
  keys of the file replace those of the state, except that \<open>startTime\<close> becomes
  \<open>Math.min(currentStartTime, data.startTime || currentStartTime)\<close>. The file holds keys
  that persistData writes, with values of the kind it writes; the encoding as JSON text
  is not modelled.
\<close>

definition loadPersistedData :: "sys \<Rightarrow> world \<Rightarrow> world" where
  "loadPersistedData s w =
     (if \<not> data_dir_ok s then w
      else case data_file w of
             NoFile \<Rightarrow> w
           | Unparsable \<Rightarrow> w
           | FalsyJson \<Rightarrow> w
           | Data d \<Rightarrow>
               (let currentStartTime = startTime (md w);
                    (refs, w1) = (case p_monitoringTasks d of
                                    None \<Rightarrow> (monitoringTasks (md w), w)
                                  | Some ts \<Rightarrow> alloc_tasks ts w);
                    m = md w1
                in w1\<lparr>md := m
                      \<lparr> lastRewardTime :=
                          (case p_lastRewardTime d of None \<Rightarrow> lastRewardTime m | Some l \<Rightarrow> l),
                        history := (case p_history d of None \<Rightarrow> history m | Some h \<Rightarrow> h),
                        monitoringTasks := refs,
                        startTime :=
                          min currentStartTime
                            (case p_startTime d of
                               None \<Rightarrow> currentStartTime
                             | Some t \<Rightarrow> if t \<noteq> 0 then t else currentStartTime) \<rparr>\<rparr>))"

definition persistData :: "sys \<Rightarrow> world \<Rightarrow> bool \<times> world" where
  "persistData s w =
     (if fs_write_ok s then
        (True,
         w\<lparr>data_file := Data
              \<lparr> p_startTime = Some (startTime (md w)),
                p_lastRewardTime = Some (lastRewardTime (md w)),
                p_history = Some (history (md w)),
                p_monitoringTasks = Some (tasks_of w (monitoringTasks (md w))) \<rparr>\<rparr>)
      else (False, w))"

subsection \<open>Collecting and processing metrics\<close>

definition handleMetricsError :: "config \<Rightarrow> sys \<Rightarrow> string \<Rightarrow> world \<Rightarrow> world" where
  "handleMetricsError cfg s msg w =
     (let m = md w;
          w1 = w\<lparr>md := m\<lparr>errors_count := errors_count m + 1,
                           errors_lastError := Some (now (conn_env s), msg)\<rparr>\<rparr>
      in if errors_count (md w1) \<ge> 5 \<and> \<not> isSocketConnected (cn w1)
         then w1\<lparr>cn := connect cfg (conn_env s) (cn w1)\<rparr>
         else w1)"

text \<open>
  \<open>Promise.race\<close> of a provider call against the timer of 5000 ms that rejects with the
  given message. A call that settles before the timer wins; at 5000 ms or later the
  timer's rejection is taken.
\<close>

definition race_timeout :: "string \<Rightarrow> 'a provider_call \<Rightarrow> string + 'a" where
  "race_timeout msg call =
     (case call of
        Resolves t v \<Rightarrow> if t < 5000 then Inr v else Inl msg
      | Rejects t err \<Rightarrow> if t < 5000 then Inl err else Inl msg
      | NeverSettles \<Rightarrow> Inl msg)"

definition disk_of_row :: "fs_row \<Rightarrow> disk_entry" where
  "disk_of_row r =
     \<lparr> disk_fs = fs_fs r, disk_type = fs_type r, disk_size = fs_size r, disk_used = fs_used r,
       disk_available = fs_available r, disk_usagePercentage = fs_use r \<rparr>"

definition network_of_row :: "net_row \<Rightarrow> network_entry" where
  "network_of_row r =
     \<lparr> net_interface = nr_iface r, net_rxBytes = nr_rx_bytes r, net_txBytes = nr_tx_bytes r,
       net_rxErrors = nr_rx_errors r, net_txErrors = nr_tx_errors r \<rparr>"

definition status_of_task :: "task \<Rightarrow> task_status" where
  "status_of_task t =
     \<lparr> ts_id = task_id t, ts_name = task_name t, ts_type = task_type t,
       ts_target = task_target t, ts_lastRunTime = task_lastRunTime t,
       ts_lastResult =
         (case task_lastResult t of
            None \<Rightarrow> None
          | Some r \<Rightarrow> Some (cr_success r, cr_timestamp r)) \<rparr>"

text \<open>
  The blocks of collectMetrics, one per domain. The cpu block throws at
  \<open>os.cpus()[0].model\<close> when \<open>os.cpus()\<close> is empty. The disk and the network blocks have a
  \<open>try\<close> of their own around the race with the timer and turn every failure into the
  error marker. The memory and the uptime blocks cannot throw.
\<close>

definition cpu_reading :: "providers \<Rightarrow> string + cpu_info" where
  "cpu_reading p =
     (case os_cpus p of
        [] \<Rightarrow> Inl ''Cannot read properties of undefined (reading 'model')''
      | (model, speed) # _ \<Rightarrow>
          Inr \<lparr> cpu_usage = cpuUsage p * 100, cpu_cores = length (os_cpus p),
                cpu_model = model, cpu_speed = speed \<rparr>)"

definition memory_reading :: "providers \<Rightarrow> memory_info" where
  "memory_reading p =
     (let totalMemory = os_totalmem p;
          freeMemory = os_freemem p;
          usedMemory = totalMemory - freeMemory
      in \<lparr> mem_total = totalMemory, mem_free = freeMemory, mem_used = usedMemory,
           mem_usagePercentage =
             js_mul (js_div (js_num usedMemory) (js_num totalMemory)) (Num 100) \<rparr>)"

definition disk_reading :: "providers \<Rightarrow> disk_entry domain_reading" where
  "disk_reading p =
     (case race_timeout ''Disk metrics collection timeout'' (si_fsSize p) of
        Inr diskInfo \<Rightarrow> Readings (map disk_of_row diskInfo)
      | Inl msg \<Rightarrow> ErrorMarker msg)"

definition network_reading :: "providers \<Rightarrow> network_entry domain_reading" where
  "network_reading p =
     (case race_timeout ''Network metrics collection timeout'' (si_networkStats p) of
        Inr networkStats \<Rightarrow> Readings (map network_of_row networkStats)
      | Inl msg \<Rightarrow> ErrorMarker msg)"

definition uptime_reading :: "providers \<Rightarrow> monitoringData \<Rightarrow> uptime_info" where
  "uptime_reading p m =
     \<lparr> up_system = os_uptime p, up_process = process_uptime p,
       up_client = real_of_int (uptime_now p - startTime m) / 1000 \<rparr>"

text \<open>
  collectMetrics returns the snapshot or throws (\<open>Inl\<close>): the outer \<open>try\<close> logs and rethrows.
  A domain that is not enabled keeps the value the snapshot was initialised with.
\<close>

definition collectMetrics :: "config \<Rightarrow> sys \<Rightarrow> world \<Rightarrow> string + metrics" where
  "collectMetrics cfg s w =
     (let p = prov s
      in case (if metrics_cpu cfg then map_sum id Some (cpu_reading p) else Inr None) of
           Inl err \<Rightarrow> Inl err
         | Inr cpu \<Rightarrow>
             Inr \<lparr> m_timestamp = now (conn_env s),
                   m_system = \<lparr> sys_platform = os_platform p, sys_arch = os_arch p,
                                sys_hostname = os_hostname p, sys_uptime = os_uptime p \<rparr>,
                   m_cpu = cpu,
                   m_memory = (if metrics_memory cfg then Some (memory_reading p) else None),
                   m_disk = (if metrics_disk cfg then disk_reading p else NoReading),
                   m_network = (if metrics_network cfg then network_reading p else NoReading),
                   m_uptime = (if metrics_uptime cfg then Some (uptime_reading p (md w))
                               else None),
                   m_tasks = (if monitoringTasks (md w) \<noteq> []
                              then Some (map status_of_task (tasks_of w (monitoringTasks (md w))))
                              else None) \<rparr>)"

text \<open>
  processMetrics stores the snapshot's domains (\<open>current_of\<close>), pushes the history
  point (\<open>point_of\<close>) and drops the first point when the list has grown beyond 100, and
  sends the snapshot when the connection is open. It returns the message of the
  \<open>TypeError\<close> it throws, if any: at
  \<open>metrics.uptime.client\<close> when the snapshot has no uptime (the current metrics are
  already replaced then), and in the final log line at \<open>toFixed\<close> when the snapshot has
  no cpu usage or no memory percentage (history and transmission are done then).
\<close>

definition current_of :: "metrics \<Rightarrow> current_metrics" where
  "current_of m =
     \<lparr> cur_cpu = m_cpu m, cur_memory = m_memory m, cur_disk = m_disk m,
       cur_network = m_network m,
       cur_uptime = (case m_uptime m of None \<Rightarrow> UptimeUndefined | Some u \<Rightarrow> UptimeInfo u) \<rparr>"

definition point_of :: "metrics \<Rightarrow> uptime_info \<Rightarrow> history_point" where
  "point_of m u =
     \<lparr> hp_timestamp = m_timestamp m, hp_cpu = map_option cpu_usage (m_cpu m),
       hp_memory = map_option mem_usagePercentage (m_memory m), hp_uptime = up_client u \<rparr>"

definition processMetrics :: "config \<Rightarrow> sys \<Rightarrow> metrics \<Rightarrow> world \<Rightarrow> string option \<times> world" where
  "processMetrics cfg s m w =
     (let w1 = w\<lparr>md := (md w)\<lparr>metrics := current_of m\<rparr>\<rparr>
      in case m_uptime m of
           None \<Rightarrow> (Some ''Cannot read properties of undefined (reading 'client')'', w1)
         | Some u \<Rightarrow>
             (let pushed = history (md w1) @ [point_of m u];
                  w2 = w1\<lparr>md := (md w1)\<lparr>history :=
                           (if length pushed > 100 then tl pushed else pushed)\<rparr>\<rparr>;
                  w3 = (if isSocketConnected (cn w2)
                        then w2\<lparr>cn := snd (sendMetrics cfg (conn_env s) m (cn w2))\<rparr>
                        else w2)
              in if m_cpu m = None \<or> m_memory m = None
                 then (Some ''Cannot read properties of undefined (reading 'toFixed')'', w3)
                 else (None, w3)))"

subsection \<open>Rewards\<close>

text \<open>
  \<open>lastRewardTime\<close> is used as a condition: \<open>null\<close> and 0 are falsy, and then the
  interval check is skipped and the time is counted from \<open>startTime\<close>.
  The two quantities distributeRewards computes once the interval check has passed are
  \<open>totalTime\<close>, and \<open>uptimePercentage\<close>, which throws (\<open>Inl\<close>) when the stored uptime is
  \<open>undefined\<close> and is \<open>NaN\<close> when it is the empty object.
\<close>

definition totalTime :: "monitoringData \<Rightarrow> int \<Rightarrow> int" where
  "totalTime m t =
     (case lastRewardTime m of
        None \<Rightarrow> t - startTime m
      | Some l \<Rightarrow> if l \<noteq> 0 then t - l else t - startTime m)"

definition uptimePercentage :: "monitoringData \<Rightarrow> int \<Rightarrow> string + jsnum" where
  "uptimePercentage m t =
     (case cur_uptime (metrics m) of
        UptimeUndefined \<Rightarrow> Inl ''Cannot read properties of undefined (reading 'client')''
      | UptimeEmpty \<Rightarrow>
          Inr (js_mul (js_div (js_mul NaN (Num 1000)) (js_num (real_of_int (totalTime m t))))
                 (Num 100))
      | UptimeInfo u \<Rightarrow>
          Inr (js_mul (js_div (js_mul (js_num (up_client u)) (Num 1000))
                         (js_num (real_of_int (totalTime m t))))
                 (Num 100)))"

text \<open>The amount: \<open>config.solana.rewardAmount * (uptimePercentage / 100)\<close>.\<close>

definition reward_for :: "config \<Rightarrow> jsnum \<Rightarrow> jsnum" where
  "reward_for cfg pct =
     (let rewardMultiplier = js_div pct (Num 100)
      in js_mul (js_num (rewardAmount cfg)) rewardMultiplier)"

datatype reward_outcome =
    NotYetTime
  | Threw string
  | UptimeTooLow jsnum
  | Rewarded jsnum string
  | RewardFailed jsnum string

definition distributeRewards :: "config \<Rightarrow> sys \<Rightarrow> world \<Rightarrow> reward_outcome \<times> world" where
  "distributeRewards cfg s w =
     (let t = now (conn_env s); m = md w
      in if (case lastRewardTime m of
                None \<Rightarrow> False
              | Some l \<Rightarrow> l \<noteq> 0 \<and> t - l < int (rewardInterval cfg))
         then (NotYetTime, w)
         else case uptimePercentage m t of
                Inl err \<Rightarrow> (Threw err, w)
              | Inr pct \<Rightarrow>
                  if js_ge pct (Num 90) then
                    (let amount = reward_for cfg pct;
                         w1 = w\<lparr>rewards := rewards w @ [amount]\<rparr>
                     in case sendReward s amount of
                          Inr txId \<Rightarrow>
                            (Rewarded amount txId, w1\<lparr>md := m\<lparr>lastRewardTime := Some t\<rparr>\<rparr>)
                        | Inl err \<Rightarrow> (RewardFailed amount err, w1))
                  else (UptimeTooLow pct, w))"

subsection \<open>The read surface\<close>

record task_report =
  tr_id :: string
  tr_name :: string
  tr_type :: string
  tr_target :: string
  tr_lastRunTime :: "int option"
  tr_lastResult :: "check_result option"

record metrics_report =
  rep_current :: current_metrics
  rep_history :: "history_point list"
  rep_since :: int
  rep_lastReward :: "int option"
  rep_tasks :: "task_report list"
  rep_errors :: nat
  rep_lastError :: "(int \<times> string) option"
  rep_healthy :: bool

definition report_of_task :: "task \<Rightarrow> task_report" where
  "report_of_task t =
     \<lparr> tr_id = task_id t, tr_name = task_name t, tr_type = task_type t,
       tr_target = task_target t, tr_lastRunTime = task_lastRunTime t,
       tr_lastResult = task_lastResult t \<rparr>"

text \<open>\<open>!monitoringData.metrics.cpu.usage\<close>: no usage recorded, or a usage of 0.\<close>

definition no_cpu_usage :: "monitoringData \<Rightarrow> bool" where
  "no_cpu_usage m = (case cur_cpu (metrics m) of None \<Rightarrow> True | Some c \<Rightarrow> cpu_usage c = 0)"

definition getMetrics :: "config \<Rightarrow> sys \<Rightarrow> world \<Rightarrow> metrics_report \<times> world" where
  "getMetrics cfg s w =
     (let w1 = (if no_cpu_usage (md w) then
                  (case collectMetrics cfg s w of
                     Inr m \<Rightarrow> snd (processMetrics cfg s m w)
                   | Inl err \<Rightarrow> w)
                else w);
          m = md w1
      in (\<lparr> rep_current = metrics m, rep_history = history m, rep_since = startTime m,
            rep_lastReward = lastRewardTime m,
            rep_tasks = map report_of_task (tasks_of w1 (monitoringTasks m)),
            rep_errors = errors_count m, rep_lastError = errors_lastError m,
            rep_healthy = (errors_count m < 3) \<rparr>,
          w1))"

subsection \<open>Monitoring tasks\<close>

definition not_implemented :: "string \<Rightarrow> int \<Rightarrow> check_result" where
  "not_implemented msg t =
     \<lparr> cr_success = False, cr_error = Some msg, cr_statusCode = None, cr_responseTime = None,
       cr_contentValid = None, cr_responseTimeValid = None, cr_timestamp = t \<rparr>"

text \<open>
  executeMonitoringTask: the HTTP check never throws and its result is given by the
  environment; an unknown type throws.
\<close>

definition executeMonitoringTask :: "sys \<Rightarrow> task \<Rightarrow> string + check_result" where
  "executeMonitoringTask s t =
     (if task_type t = ''http'' then Inr (http_result s)
      else if task_type t = ''ping''
        then Inr (not_implemented ''Ping check not implemented yet'' (now (conn_env s)))
      else if task_type t = ''tcp''
        then Inr (not_implemented ''TCP check not implemented yet'' (now (conn_env s)))
      else if task_type t = ''dns''
        then Inr (not_implemented ''DNS check not implemented yet'' (now (conn_env s)))
      else Inl (''Unknown task type: '' @ task_type t))"

definition cron_of_interval :: "interval \<Rightarrow> cron_expr" where
  "cron_of_interval i =
     (case i of
        Millis ms \<Rightarrow> EveryMinutes (max 1 \<lceil>ms / 60000\<rceil>)
      | CronText x \<Rightarrow> Expression x)"

text \<open>
  scheduleMonitoringTask registers a cron job for the task object; the value returned by
  \<open>cron.schedule\<close> is dropped. \<open>cron.schedule\<close> is taken to accept every expression.
\<close>

definition scheduleMonitoringTask :: "nat \<Rightarrow> task \<Rightarrow> world \<Rightarrow> world" where
  "scheduleMonitoringTask r t w =
     w\<lparr>jobs := jobs w @ [\<lparr>job_cron = cron_of_interval (task_interval t), job_callback = TaskRun r\<rparr>]\<rparr>"

text \<open>scheduleMonitoringTasks does the same for every task of the list, at start.\<close>

fun scheduleMonitoringTasks :: "nat list \<Rightarrow> world \<Rightarrow> world" where
  "scheduleMonitoringTasks [] w = w"
| "scheduleMonitoringTasks (r # rs) w =
     scheduleMonitoringTasks rs
       (case task_objs w r of
          None \<Rightarrow> w
        | Some t \<Rightarrow>
            w\<lparr>jobs := jobs w @
                 [\<lparr>job_cron = cron_of_interval (task_interval t),
                   job_callback = TaskRunReporting r\<rparr>]\<rparr>)"

definition addMonitoringTask :: "sys \<Rightarrow> task \<Rightarrow> world \<Rightarrow> string \<times> world" where
  "addMonitoringTask s t w =
     (let t1 = (if task_id t = [] then t\<lparr>task_id := generated_id s\<rparr> else t);
          t2 = (if task_name t1 = []
                then t1\<lparr>task_name := task_type t1 @ ''_'' @ task_target t1\<rparr> else t1);
          r = next_ref w;
          w1 = w\<lparr>task_objs := (task_objs w)(r \<mapsto> t2), next_ref := r + 1\<rparr>;
          w2 = w1\<lparr>md := (md w1)\<lparr>monitoringTasks := monitoringTasks (md w1) @ [r]\<rparr>\<rparr>;
          w3 = scheduleMonitoringTask r t2 w2
      in (task_id t2, snd (persistData s w3)))"

text \<open>\<open>findIndex\<close>: the position of the first element with the property, if any.\<close>

fun findIndex :: "('a \<Rightarrow> bool) \<Rightarrow> 'a list \<Rightarrow> nat option" where
  "findIndex P [] = None"
| "findIndex P (x # xs) = (if P x then Some 0 else map_option Suc (findIndex P xs))"

definition has_id :: "world \<Rightarrow> string \<Rightarrow> nat \<Rightarrow> bool" where
  "has_id w taskId r = (case task_objs w r of None \<Rightarrow> False | Some t \<Rightarrow> task_id t = taskId)"

definition removeMonitoringTask :: "sys \<Rightarrow> string \<Rightarrow> world \<Rightarrow> bool \<times> world" where
  "removeMonitoringTask s taskId w =
     (case findIndex (has_id w taskId) (monitoringTasks (md w)) of
        Some i \<Rightarrow>
          (True,
           snd (persistData s
                  (w\<lparr>md := (md w)\<lparr>monitoringTasks :=
                        take i (monitoringTasks (md w)) @ drop (Suc i) (monitoringTasks (md w))\<rparr>\<rparr>)))
      | None \<Rightarrow> (False, w))"

subsection \<open>Scheduled callbacks and start\<close>

text \<open>The callback of the metrics job registered by init.\<close>

definition metricsTick :: "config \<Rightarrow> sys \<Rightarrow> world \<Rightarrow> world" where
  "metricsTick cfg s w =
     (case collectMetrics cfg s w of
        Inl err \<Rightarrow> handleMetricsError cfg s err w
      | Inr m \<Rightarrow>
          (case processMetrics cfg s m w of
             (Some err, w1) \<Rightarrow> handleMetricsError cfg s err w1
           | (None, w1) \<Rightarrow>
               (let w2 = (if errors_count (md w1) > 0
                          then w1\<lparr>md := (md w1)\<lparr>errors_count := 0, errors_lastError := None\<rparr>\<rparr>
                          else w1)
                in snd (persistData s w2))))"

text \<open>
  The callback of a task job: run the check, report the result on the connection, store
  it in the task object, persist. The jobs registered at start also report an error.
\<close>

definition taskTick :: "config \<Rightarrow> sys \<Rightarrow> bool \<Rightarrow> nat \<Rightarrow> world \<Rightarrow> world" where
  "taskTick cfg s reporting r w =
     (case task_objs w r of
        None \<Rightarrow> w
      | Some t \<Rightarrow>
          (case executeMonitoringTask s t of
             Inr result \<Rightarrow>
               (let w1 = w\<lparr>cn := snd (send cfg (conn_env s) ''taskResult''
                                        (TaskResultData (task_id t) (task_type t) (task_target t)
                                           result (now (conn_env s)))
                                        Normal (cn w))\<rparr>;
                    w2 = w1\<lparr>task_objs := (task_objs w1)
                             (r \<mapsto> t\<lparr>task_lastResult := Some result,
                                      task_lastRunTime := Some (now (conn_env s))\<rparr>)\<rparr>
                in snd (persistData s w2))
           | Inl err \<Rightarrow>
               if reporting
               then w\<lparr>cn := snd (send cfg (conn_env s) ''taskError''
                                   (TaskErrorData (task_id t) (task_type t) (task_target t)
                                      err (now (conn_env s)))
                                   Normal (cn w))\<rparr>
               else w))"

fun run_callback :: "config \<Rightarrow> sys \<Rightarrow> callback \<Rightarrow> world \<Rightarrow> world" where
  "run_callback cfg s MetricsCollection w = metricsTick cfg s w"
| "run_callback cfg s PeriodicPersist w = snd (persistData s w)"
| "run_callback cfg s (TaskRunReporting r) w = taskTick cfg s True r w"
| "run_callback cfg s (TaskRun r) w = taskTick cfg s False r w"
| "run_callback cfg s ShutdownPersist w = snd (persistData s w)"

text \<open>
  init of monitor.js. The first collection it starts completes later and is the event
  \<open>initialCollection\<close>.
\<close>

definition init :: "config \<Rightarrow> sys \<Rightarrow> world \<Rightarrow> world" where
  "init cfg s w =
     (let w1 = loadPersistedData s w;
          intervalInMinutes = \<lceil>real (monitoring_interval cfg) / 60000\<rceil>;
          w2 = w1\<lparr>jobs := jobs w1 @
                  [\<lparr>job_cron = EveryMinutes intervalInMinutes, job_callback = MetricsCollection\<rparr>]\<rparr>;
          w3 = (if monitoringTasks (md w2) \<noteq> []
                then scheduleMonitoringTasks (monitoringTasks (md w2)) w2 else w2);
          w4 = w3\<lparr>jobs := jobs w3 @
                  [\<lparr>job_cron = EveryMinutes 30, job_callback = PeriodicPersist\<rparr>]\<rparr>
      in w4\<lparr>signal_handlers := signal_handlers w4 @
               [(SIGTERM, ShutdownPersist), (SIGINT, ShutdownPersist)]\<rparr>)"

definition initialCollection :: "config \<Rightarrow> sys \<Rightarrow> world \<Rightarrow> world" where
  "initialCollection cfg s w =
     (case collectMetrics cfg s w of
        Inl err \<Rightarrow> handleMetricsError cfg s err w
      | Inr m \<Rightarrow>
          (case processMetrics cfg s m w of
             (Some err, w1) \<Rightarrow> handleMetricsError cfg s err w1
           | (None, w1) \<Rightarrow> w1))"

subsection \<open>Everything that runs in the agent\<close>

text \<open>
  The entry points into the two modules: the start of the agent (index.js calls init of
  monitor.js, then init of websocket.js, which connects), the completion of the first
  collection, a tick of a registered cron job, a termination signal (the handlers
  registered for it run, then the shutdown of index.js notifies the remote side), the
  route \<open>/metrics\<close> (getMetrics), the exported addMonitoringTask and removeMonitoringTask,
  the events of the connection, and the completion of the collection that a
  \<open>requestMetrics\<close> message started (sendMetrics of the snapshot). The status heartbeat
  and the registration of index.js act on the user service only, whose data is part of
  the environment of each event.
  A restart of the process at time \<open>t\<close> loads the modules again: the module state is the
  initial one, the data file stays. distributeRewards is not exported by monitor.js and
  no function of the repository calls it, so it is not among the entry points.
\<close>

datatype agent_event =
    Start
  | InitialCollectionDone
  | CronTick nat
  | Signalled signal
  | GetMetricsRoute
  | AddTask task
  | RemoveTask string
  | Connection event
  | RequestedMetricsCollected
  | Restart int

fun agent_step :: "config \<Rightarrow> sys \<Rightarrow> agent_event \<Rightarrow> world \<Rightarrow> world" where
  "agent_step cfg s Start w =
     (let w1 = init cfg s w in w1\<lparr>cn := websocket_init cfg (conn_env s) (cn w1)\<rparr>)"
| "agent_step cfg s InitialCollectionDone w = initialCollection cfg s w"
| "agent_step cfg s (CronTick i) w =
     (if i < length (jobs w) then run_callback cfg s (job_callback (jobs w ! i)) w else w)"
| "agent_step cfg s (Signalled sg) w =
     (let w1 = foldl (\<lambda>w' h. if fst h = sg then run_callback cfg s (snd h) w' else w') w
                 (signal_handlers w)
      in if registered (user (conn_env s)) \<and> isSocketConnected (cn w1)
         then w1\<lparr>cn := snd (send cfg (conn_env s) ''disconnect''
                               (ShutdownData (nodeId (user (conn_env s))) ''shutdown'')
                               Normal (cn w1))\<rparr>
         else w1)"
| "agent_step cfg s GetMetricsRoute w = snd (getMetrics cfg s w)"
| "agent_step cfg s (AddTask t) w = snd (addMonitoringTask s t w)"
| "agent_step cfg s (RemoveTask taskId) w = snd (removeMonitoringTask s taskId w)"
| "agent_step cfg s (Connection e) w = w\<lparr>cn := step cfg (conn_env s) e (cn w)\<rparr>"
| "agent_step cfg s RequestedMetricsCollected w =
     (case collectMetrics cfg s w of
        Inr m \<Rightarrow> w\<lparr>cn := snd (sendMetrics cfg (conn_env s) m (cn w))\<rparr>
      | Inl err \<Rightarrow> w)"
| "agent_step cfg s (Restart t) w = (initial_world t (data_file w))\<lparr>rewards := rewards w\<rparr>"

fun agent_run :: "config \<Rightarrow> (sys \<times> agent_event) list \<Rightarrow> world \<Rightarrow> world" where
  "agent_run cfg [] w = w"
| "agent_run cfg ((s, a) # evs) w = agent_run cfg evs (agent_step cfg s a w)"


subsection \<open>Vocabulary for the properties of the monitoring service\<close>

text \<open>
  \<open>lastRewardTime\<close> is \<open>null\<close> or \<open>now - lastRewardTime >= rewardInterval\<close>; the computed
  uptime percentage is at least 90; a reward was handed to \<open>sendReward\<close> between two
  states.
\<close>

definition reward_due :: "config \<Rightarrow> monitoringData \<Rightarrow> int \<Rightarrow> bool" where
  "reward_due cfg m t =
     (case lastRewardTime m of
        None \<Rightarrow> True
      | Some l \<Rightarrow> int (rewardInterval cfg) \<le> t - l)"

definition uptime_ok :: "monitoringData \<Rightarrow> int \<Rightarrow> bool" where
  "uptime_ok m t = (case uptimePercentage m t of Inl _ \<Rightarrow> False | Inr pct \<Rightarrow> js_ge pct (Num 90))"

definition issued :: "world \<Rightarrow> world \<Rightarrow> bool" where
  "issued w w' = (rewards w' \<noteq> rewards w)"

text \<open>The message sendMetrics builds for a snapshot.\<close>

definition metrics_message :: "env \<Rightarrow> metrics \<Rightarrow> message" where
  "metrics_message e m =
     \<lparr> msg_type = ''metrics'', msg_data = MetricsData (nodeId (user e)) (publicKey (user e)) m,
       msg_timestamp = now e, msg_priority = Normal \<rparr>"

text \<open>
  The bound on the history, in the state and in the data file: the file the agent writes
  carries the history of the state.
\<close>

definition file_history_bounded :: "file_state \<Rightarrow> bool" where
  "file_history_bounded f =
     (case f of
        Data d \<Rightarrow> (case p_history d of None \<Rightarrow> True | Some h \<Rightarrow> length h \<le> 100)
      | _ \<Rightarrow> True)"

definition history_bounded :: "world \<Rightarrow> bool" where
  "history_bounded w = (length (history (md w)) \<le> 100 \<and> file_history_bounded (data_file w))"

text \<open>Concrete inputs: an environment with healthy providers, and some states.\<close>

definition sys0 :: sys where
  "sys0 =
     \<lparr> conn_env = env0,
       prov = \<lparr> os_platform = ''linux'', os_arch = ''x64'', os_hostname = ''node'',
                os_uptime = 5000, cpuUsage = 1 / 4, os_cpus = [(''cpu'', 2400)],
                os_totalmem = 8000, os_freemem = 2000,
                si_fsSize = Resolves 20 [], si_networkStats = Resolves 20 [],
                process_uptime = 100, uptime_now = 1700000000000 \<rparr>,
       data_dir_ok = True, fs_write_ok = True,
       http_result = not_implemented ''unused'' 0,
       sendReward = (\<lambda>a. Inr ''tx1''), generated_id = ''task_1'' \<rparr>"

text \<open>
  A state started at \<open>t0\<close> with the given \<open>lastRewardTime\<close> and stored client uptime.
\<close>

definition world_at :: "int \<Rightarrow> int option \<Rightarrow> real \<Rightarrow> world" where
  "world_at t0 l up =
     (initial_world t0 NoFile)
       \<lparr>md := (initial_monitoringData t0)
          \<lparr>lastRewardTime := l,
            metrics := \<lparr> cur_cpu = None, cur_memory = None, cur_disk = NoReading,
                         cur_network = NoReading,
                         cur_uptime = UptimeInfo \<lparr>up_system = 0, up_process = 0, up_client = up\<rparr> \<rparr>\<rparr>\<rparr>"

definition ping_task :: task where
  "ping_task =
     \<lparr> task_id = ''t1'', task_name = ''probe'', task_type = ''ping'', task_target = ''10.0.0.1'',
       task_interval = Millis 120000, task_lastRunTime = None, task_lastResult = None \<rparr>"

definition world_with_task :: world where
  "world_with_task = snd (addMonitoringTask sys0 ping_task (initial_world 1699999000000 NoFile))"

text \<open>
  The snapshot collected under the default configuration from \<open>sys0\<close> by an agent
  started one thousand seconds earlier, without tasks.
\<close>

definition snapshot0 :: metrics where
  "snapshot0 =
     \<lparr> m_timestamp = 1700000000000,
       m_system = \<lparr> sys_platform = ''linux'', sys_arch = ''x64'', sys_hostname = ''node'',
                    sys_uptime = 5000 \<rparr>,
       m_cpu = Some \<lparr> cpu_usage = 25, cpu_cores = 1, cpu_model = ''cpu'', cpu_speed = 2400 \<rparr>,
       m_memory = Some \<lparr> mem_total = 8000, mem_free = 2000, mem_used = 6000,
                          mem_usagePercentage = Num 75 \<rparr>,
       m_disk = Readings [], m_network = Readings [],
       m_uptime = Some \<lparr> up_system = 5000, up_process = 100, up_client = 1000 \<rparr>,
       m_tasks = None \<rparr>"

definition uptime0 :: uptime_info where
  "uptime0 = \<lparr> up_system = 5000, up_process = 100, up_client = 1000 \<rparr>"

text \<open>The same environment with a registered user.\<close>

definition sys_registered :: sys where
  "sys_registered =
     sys0\<lparr>conn_env := env0\<lparr>user :=
       \<lparr> registered = True, publicKey = Some ''pk'', nodeId = Some ''node-1'' \<rparr>\<rparr>\<rparr>"

text \<open>
  A fresh agent with an open connection, and the same with a stored cpu usage. The
  environment \<open>sys0\<close> on a machine that lists no cpu.
\<close>

definition world_open :: world where
  "world_open = (initial_world 1699999000000 NoFile)\<lparr>cn := initial_conn\<lparr>isConnected := True\<rparr>\<rparr>"

definition world_usage :: "real \<Rightarrow> world" where
  "world_usage x =
     world_open\<lparr>md := (initial_monitoringData 1699999000000)
       \<lparr>metrics := \<lparr> cur_cpu = Some \<lparr> cpu_usage = x, cpu_cores = 1, cpu_model = ''cpu'',
                                       cpu_speed = 2400 \<rparr>,
                      cur_memory = None, cur_disk = NoReading, cur_network = NoReading,
                      cur_uptime = UptimeEmpty \<rparr>\<rparr>\<rparr>"

definition sys_no_cpu :: sys where
  "sys_no_cpu = sys0\<lparr>prov := (prov sys0)\<lparr>os_cpus := []\<rparr>\<rparr>"

text \<open>
  Snapshots and their history points, one per minute; a data file with the start time
  1699990000000 that holds 150 history points.
\<close>

definition snapshot_at :: "nat \<Rightarrow> metrics" where
  "snapshot_at i =
     snapshot0\<lparr>m_timestamp := 1700000000000 + 60000 * int i,
               m_uptime := Some \<lparr> up_system = 5000, up_process = 100,
                                 up_client = 1000 + 60 * real i \<rparr>\<rparr>"

definition point_at :: "nat \<Rightarrow> history_point" where
  "point_at i =
     \<lparr> hp_timestamp = 1700000000000 + 60000 * int i, hp_cpu = Some 25,
       hp_memory = Some (Num 75), hp_uptime = 1000 + 60 * real i \<rparr>"

definition stored_point_at :: "nat \<Rightarrow> history_point" where
  "stored_point_at i =
     \<lparr> hp_timestamp = 1699990000000 + 60000 * int i, hp_cpu = Some 10,
       hp_memory = Some (Num 50), hp_uptime = 60 * real i \<rparr>"

definition long_history :: "history_point list" where
  "long_history = map stored_point_at [0..<150]"

definition long_file :: file_state where
  "long_file =
     Data \<lparr> p_startTime = Some 1699990000000, p_lastRewardTime = Some None,
            p_history = Some long_history, p_monitoringTasks = Some [] \<rparr>"

text \<open>processMetrics for each snapshot of a list, in order.\<close>

definition process_all :: "config \<Rightarrow> sys \<Rightarrow> metrics list \<Rightarrow> world \<Rightarrow> world" where
  "process_all cfg s ms w = foldl (\<lambda>w' m. snd (processMetrics cfg s m w')) w ms"

text \<open>The points pushed for a list of snapshots: none for a snapshot without uptime.\<close>

definition points_of :: "metrics list \<Rightarrow> history_point list" where
  "points_of ms =
     concat (map (\<lambda>m. case m_uptime m of None \<Rightarrow> [] | Some u \<Rightarrow> [point_of m u]) ms)"


section \<open>Properties of the connectivity manager\<close>

lemma ws_send_fields [simp]:
  "reconnectAttempts (ws_send m c) = reconnectAttempts c"
  "isConnected (ws_send m c) = isConnected c"
  "pendingMessages (ws_send m c) = pendingMessages c"
  "ws_log (ws_send m c) = ws_log c @ [(m, ws_send_ok c)]"
  "ws_script (ws_send m c) = tl (ws_script c)"
  by (simp_all add: ws_send_def)






lemma flush_one_attempts [simp]: "reconnectAttempts (flush_one c m) = reconnectAttempts c"
  by (simp add: flush_one_def)

lemma foldl_flush_one_attempts [simp]:
  "reconnectAttempts (foldl flush_one c ms) = reconnectAttempts c"
  by (induction ms arbitrary: c) simp_all

lemma flushPending_attempts [simp]: "reconnectAttempts (flushPending c) = reconnectAttempts c"
  by (simp add: flushPending_def Let_def)







lemma outcomes_Suc:
  "outcomes (Suc n) s = (case s of [] \<Rightarrow> True | ok # _ \<Rightarrow> ok) # outcomes n (tl s)"
  by (cases s) simp_all

lemma foldl_flush_one_log:
  "ws_log (foldl flush_one c ms) = ws_log c @ zip ms (outcomes (length ms) (ws_script c))"
proof (induction ms arbitrary: c)
  case Nil
  then show ?case by simp
next
  case (Cons m ms)
  have "ws_log (flush_one c m) = ws_log c @ [(m, ws_send_ok c)]"
    and "ws_script (flush_one c m) = tl (ws_script c)"
    by (simp_all add: flush_one_def)
  with Cons.IH [of "flush_one c m"] show ?case
    by (simp add: outcomes_Suc ws_send_ok_def)
qed

lemma foldl_flush_one_pending:
  "pendingMessages (foldl flush_one c ms) =
     pendingMessages c @ requeued (zip ms (outcomes (length ms) (ws_script c)))"
proof (induction ms arbitrary: c)
  case Nil
  then show ?case by (simp add: requeued_def)
next
  case (Cons m ms)
  have p: "pendingMessages (flush_one c m) =
          pendingMessages c @ (if \<not> ws_send_ok c \<and> msg_priority m = High then [m] else [])"
    and s: "ws_script (flush_one c m) = tl (ws_script c)"
    by (simp_all add: flush_one_def)
  show ?case
    using Cons.IH [of "flush_one c m"] p s
    by (simp add: outcomes_Suc ws_send_ok_def requeued_def)
qed

lemma flushPending_log:
  "ws_log (flushPending c) =
     ws_log c @ zip (pendingMessages c) (outcomes (length (pendingMessages c)) (ws_script c))"
  by (simp add: flushPending_def Let_def foldl_flush_one_log)

lemma flushPending_pending:
  "pendingMessages (flushPending c) =
     requeued (zip (pendingMessages c) (outcomes (length (pendingMessages c)) (ws_script c)))"
  by (simp add: flushPending_def Let_def foldl_flush_one_pending requeued_def)

lemma send_checkConnection_pending:
  "isConnected c \<Longrightarrow>
     pendingMessages (snd (send cfg e ty d p c)) =
       pendingMessages c @
         (if \<not> ws_send_ok c \<and> p = High
          then [\<lparr>msg_type = ty, msg_data = d, msg_timestamp = now e, msg_priority = p\<rparr>]
          else [])"
  "isConnected c \<Longrightarrow> pendingMessages (snd (checkConnection cfg e c)) = pendingMessages c"
proof (induction cfg e ty d p c and cfg e c rule: send_checkConnection.induct)
  case (1 cfg e ty d p c)
  show ?case
    unfolding send.simps [of cfg e ty d p c]
    using 1 by (cases "p = High"; cases "ws_send_ok c") (simp_all add: Let_def)
next
  case (2 cfg e c)
  then show ?case by (simp add: checkConnection.simps [of cfg e c])
qed

lemma handleOpen_begin_pending:
  "pendingMessages (handleOpen_begin cfg e c) =
     pendingMessages c @
       (if registered (user e) \<and> \<not> ws_send_ok c then [authenticate_message e] else [])"
  by (simp add: handleOpen_begin_def authenticate_def authenticate_message_def Let_def
        send_checkConnection_pending ws_send_ok_def)

text \<open>
  Claim C3. A call of send while the connection is not open returns false, transmits
  nothing, and appends the message to the pending queue exactly when its priority is
  high. On the next open signal handleOpen hands the queue to the transport front to
  back: the calls of \<open>ws.send\<close> it makes in the flush are the queued messages in the order
  they were submitted (after them, the authentication message of a registered user when
  its own transmission failed just before), and the queue afterwards holds exactly the
  flushed messages whose transmission failed and whose priority is high, in the same
  order.
\<close>

theorem send_queue_and_flush:
  "(\<not> isConnected c \<longrightarrow>
      send cfg e ty d p c =
        (False,
         if p = High
         then c\<lparr>pendingMessages := pendingMessages c @
                  [\<lparr>msg_type = ty, msg_data = d, msg_timestamp = now e, msg_priority = p\<rparr>]\<rparr>
         else c))
   \<and> (let c1 = handleOpen_begin cfg e c;
           ms = pendingMessages c1;
           outs = outcomes (length ms) (ws_script c1)
       in ms = pendingMessages c @
               (if registered (user e) \<and> \<not> ws_send_ok c then [authenticate_message e] else [])
          \<and> ws_log (handleOpen cfg e c) = ws_log c1 @ zip ms outs
          \<and> pendingMessages (handleOpen cfg e c) = requeued (zip ms outs))"
  by (simp add: Let_def send.simps [of cfg e ty d p c] handleOpen_def flushPending_log
        flushPending_pending handleOpen_begin_pending)

text \<open>
  Disconnected, a high-priority message is queued and a normal one is dropped. Two queued
  messages and a transport that fails once: both go to the transport in their order, and
  the first, which failed, is queued again.
\<close>

theorem send_queue_and_flush_witness:
  "\<not> isConnected initial_conn
   \<and> pendingMessages (snd (send default_config env0 ''taskResult'' (OtherData ''r'') High initial_conn))
       = [\<lparr>msg_type = ''taskResult'', msg_data = OtherData ''r'',
            msg_timestamp = 1700000000000, msg_priority = High\<rparr>]
   \<and> pendingMessages (snd (send default_config env0 ''metrics'' (OtherData ''m'') Normal initial_conn))
       = []
   \<and> ws_log (handleOpen default_config env0
        (initial_conn\<lparr>pendingMessages :=
            [\<lparr>msg_type = ''a'', msg_data = OtherData ''1'', msg_timestamp = 1, msg_priority = High\<rparr>,
             \<lparr>msg_type = ''b'', msg_data = OtherData ''2'', msg_timestamp = 2, msg_priority = High\<rparr>],
           ws_script := [False, True]\<rparr>))
       = [(\<lparr>msg_type = ''a'', msg_data = OtherData ''1'', msg_timestamp = 1, msg_priority = High\<rparr>, False),
          (\<lparr>msg_type = ''b'', msg_data = OtherData ''2'', msg_timestamp = 2, msg_priority = High\<rparr>, True)]
   \<and> pendingMessages (handleOpen default_config env0
        (initial_conn\<lparr>pendingMessages :=
            [\<lparr>msg_type = ''a'', msg_data = OtherData ''1'', msg_timestamp = 1, msg_priority = High\<rparr>,
             \<lparr>msg_type = ''b'', msg_data = OtherData ''2'', msg_timestamp = 2, msg_priority = High\<rparr>],
           ws_script := [False, True]\<rparr>))
       = [\<lparr>msg_type = ''a'', msg_data = OtherData ''1'', msg_timestamp = 1, msg_priority = High\<rparr>]"
  using send_queue_and_flush [of initial_conn default_config env0 "''taskResult''" "OtherData ''r''" High]
    send_queue_and_flush [of initial_conn default_config env0 "''metrics''" "OtherData ''m''" Normal]
    send_queue_and_flush [of "initial_conn\<lparr>pendingMessages :=
            [\<lparr>msg_type = ''a'', msg_data = OtherData ''1'', msg_timestamp = 1, msg_priority = High\<rparr>,
             \<lparr>msg_type = ''b'', msg_data = OtherData ''2'', msg_timestamp = 2, msg_priority = High\<rparr>],
           ws_script := [False, True]\<rparr>" default_config env0 "''x''" "OtherData ''x''" Low]
  by (simp add: initial_conn_def env0_def handleOpen_begin_def requeued_def Let_def
        numeral_2_eq_2)

text \<open>
  Claim C5, as amended. With a jitter draw in [0, 1): for an attempt \<open>n\<close> within
  \<open>maxReconnectAttempts\<close> the scheduled delay never exceeds 60000, and when the cap does not
  bind (\<open>base * 2^(n-1) \<le> 30000\<close>) it lies between \<open>base * 2^(n-1)\<close> and
  \<open>base * 2^(n-1) * 1.3\<close>; for an attempt beyond \<open>maxReconnectAttempts\<close> the scheduled
  delay is the cooldown of 300000.
\<close>

theorem scheduleReconnect_delay:
  assumes r: "0 \<le> random e" "random e < 1"
    and n: "n = reconnectAttempts c + 1"
  shows "(n \<le> maxReconnectAttempts cfg \<longrightarrow>
           (\<exists>d. reconnectTimeout (scheduleReconnect cfg e c) =
                  Some \<lparr>t_delay = d, t_kind = ReconnectTimer, t_pending = True\<rparr>
                \<and> d \<le> 60000
                \<and> (real (reconnectInterval cfg) * 2 ^ (n - 1) \<le> 30000 \<longrightarrow>
                     real (reconnectInterval cfg) * 2 ^ (n - 1) \<le> d
                     \<and> d \<le> real (reconnectInterval cfg) * 2 ^ (n - 1) * (13 / 10))))
       \<and> (maxReconnectAttempts cfg < n \<longrightarrow>
            reconnectTimeout (scheduleReconnect cfg e c) =
              Some \<lparr>t_delay = 300000, t_kind = CooldownTimer, t_pending = True\<rparr>)"
proof (intro conjI impI)
  assume le: "n \<le> maxReconnectAttempts cfg"
  define B where "B = real (reconnectInterval cfg) * 2 ^ (n - 1)"
  define d where "d = min (min 30000 B + random e * (3 / 10) * min 30000 B) 60000"
  have B0: "0 \<le> B" by (simp add: B_def)
  have t: "reconnectTimeout (scheduleReconnect cfg e c) =
             Some \<lparr>t_delay = d, t_kind = ReconnectTimer, t_pending = True\<rparr>"
    using le n by (simp add: scheduleReconnect_def Let_def d_def B_def)
  have d60: "d \<le> 60000" by (simp add: d_def)
  have bounds: "B \<le> d \<and> d \<le> B * (13 / 10)" if cap: "B \<le> 30000"
  proof -
    have j0: "0 \<le> random e * (3 / 10) * B" using r B0 by simp
    have "random e * ((3 / 10) * B) \<le> 1 * ((3 / 10) * B)"
      using r B0 by (intro mult_right_mono) simp_all
    then have j1: "random e * (3 / 10) * B \<le> (3 / 10) * B"
      by (simp add: mult.assoc)
    define j where "j = random e * (3 / 10) * B"
    have j0': "0 \<le> j" and j1': "j \<le> (3 / 10) * B"
      using j0 j1 by (simp_all only: j_def)
    have m: "min 30000 B = B" using cap by simp
    have "d = min (B + j) 60000" by (simp only: d_def m j_def)
    moreover have "B + j \<le> 60000" using cap j1' by linarith
    ultimately have "d = B + j" by simp
    then show ?thesis using j0' j1' by linarith
  qed
  show "\<exists>d. reconnectTimeout (scheduleReconnect cfg e c) =
                  Some \<lparr>t_delay = d, t_kind = ReconnectTimer, t_pending = True\<rparr>
                \<and> d \<le> 60000
                \<and> (real (reconnectInterval cfg) * 2 ^ (n - 1) \<le> 30000 \<longrightarrow>
                     real (reconnectInterval cfg) * 2 ^ (n - 1) \<le> d
                     \<and> d \<le> real (reconnectInterval cfg) * 2 ^ (n - 1) * (13 / 10))"
    using t d60 bounds unfolding B_def by blast
next
  assume "maxReconnectAttempts cfg < n"
  with n show "reconnectTimeout (scheduleReconnect cfg e c) =
              Some \<lparr>t_delay = 300000, t_kind = CooldownTimer, t_pending = True\<rparr>"
    by (simp add: scheduleReconnect_def Let_def)
qed

text \<open>
  Third attempt with base 5000 and jitter draw 1/2: 20000 + 3000; eleventh attempt with
  at most ten allowed: the cooldown.
\<close>

theorem scheduleReconnect_delay_witness:
  "0 \<le> random env0 \<and> random env0 < 1
   \<and> (3 :: nat) \<le> maxReconnectAttempts default_config
   \<and> real (reconnectInterval default_config) * 2 ^ (3 - 1) \<le> 30000
   \<and> maxReconnectAttempts default_config < (11 :: nat)
   \<and> reconnectTimeout (scheduleReconnect default_config env0 (initial_conn\<lparr>reconnectAttempts := 2\<rparr>))
     = Some \<lparr>t_delay = 23000, t_kind = ReconnectTimer, t_pending = True\<rparr>
   \<and> reconnectTimeout (scheduleReconnect default_config env0 (initial_conn\<lparr>reconnectAttempts := 10\<rparr>))
     = Some \<lparr>t_delay = 300000, t_kind = CooldownTimer, t_pending = True\<rparr>"
  using scheduleReconnect_delay [of env0 3 "initial_conn\<lparr>reconnectAttempts := 2\<rparr>" default_config]
    scheduleReconnect_delay [of env0 11 "initial_conn\<lparr>reconnectAttempts := 10\<rparr>" default_config]
  by (simp add: env0_def default_config_def initial_conn_def scheduleReconnect_def Let_def)

text \<open>
  The claim as stated bounds the delay of every attempt by 60000: the eleventh attempt
  under the default configuration is scheduled after 300000.
\<close>

theorem cooldown_delay_exceeds_ceiling:
  "reconnectTimeout
     (scheduleReconnect default_config env0 (initial_conn\<lparr>reconnectAttempts := 10\<rparr>))
     = Some \<lparr>t_delay = 300000, t_kind = CooldownTimer, t_pending = True\<rparr>
   \<and> \<not> (300000 :: real) \<le> 60000"
  by (simp add: scheduleReconnect_def default_config_def initial_conn_def Let_def)


section \<open>Properties of the monitoring service\<close>

subsection \<open>Evaluating binary64 arithmetic\<close>

lemmas js_num_eval =
  js_num_def nearest_double_def round_half_even_def scale_down.simps scale_up.simps

subsection \<open>What the operations leave alone\<close>

lemma persistData_frame [simp]:
  "md (snd (persistData s w)) = md w"
  "jobs (snd (persistData s w)) = jobs w"
  "task_objs (snd (persistData s w)) = task_objs w"
  "rewards (snd (persistData s w)) = rewards w"
  "cn (snd (persistData s w)) = cn w"
  by (simp_all add: persistData_def)

lemma alloc_tasks_frame [simp]:
  "md (snd (alloc_tasks ts w)) = md w"
  "rewards (snd (alloc_tasks ts w)) = rewards w"
  "data_file (snd (alloc_tasks ts w)) = data_file w"
  by (induction ts arbitrary: w) (simp_all add: Let_def case_prod_beta)

lemma handleMetricsError_frame [simp]:
  "rewards (handleMetricsError cfg s msg w) = rewards w"
  "history (md (handleMetricsError cfg s msg w)) = history (md w)"
  "data_file (handleMetricsError cfg s msg w) = data_file w"
  by (simp_all add: handleMetricsError_def Let_def)

lemma processMetrics_frame [simp]:
  "rewards (snd (processMetrics cfg s m w)) = rewards w"
  "data_file (snd (processMetrics cfg s m w)) = data_file w"
  "errors_count (md (snd (processMetrics cfg s m w))) = errors_count (md w)"
  by (simp_all add: processMetrics_def Let_def split: option.splits)

lemma scheduleMonitoringTasks_frame [simp]:
  "rewards (scheduleMonitoringTasks rs w) = rewards w"
  "md (scheduleMonitoringTasks rs w) = md w"
  "data_file (scheduleMonitoringTasks rs w) = data_file w"
  by (induction rs arbitrary: w) (simp_all split: option.splits)

lemma collectMetrics_fields:
  assumes "cpu_reading (prov s) = Inr c"
  shows "\<exists>m. collectMetrics cfg s w = Inr m
     \<and> m_cpu m = (if metrics_cpu cfg then Some c else None)
     \<and> m_memory m = (if metrics_memory cfg then Some (memory_reading (prov s)) else None)
     \<and> m_disk m = (if metrics_disk cfg then disk_reading (prov s) else NoReading)
     \<and> m_network m = (if metrics_network cfg then network_reading (prov s) else NoReading)
     \<and> m_uptime m =
         (if metrics_uptime cfg then Some (uptime_reading (prov s) (md w)) else None)"
  using assms by (simp add: collectMetrics_def Let_def)

subsection \<open>Rewards are never distributed\<close>

lemma loadPersistedData_rewards [simp]: "rewards (loadPersistedData s w) = rewards w"
  by (simp add: loadPersistedData_def Let_def case_prod_beta
        split: file_state.splits option.splits)

lemma metricsTick_rewards [simp]: "rewards (metricsTick cfg s w) = rewards w"
proof (cases "collectMetrics cfg s w")
  case (Inl err)
  then show ?thesis by (simp add: metricsTick_def)
next
  case (Inr m)
  have "rewards (snd (processMetrics cfg s m w)) = rewards w" by simp
  then show ?thesis using Inr
    by (cases "processMetrics cfg s m w"; cases "fst (processMetrics cfg s m w)")
       (simp_all add: metricsTick_def Let_def)
qed

lemma initialCollection_rewards [simp]: "rewards (initialCollection cfg s w) = rewards w"
proof (cases "collectMetrics cfg s w")
  case (Inl err)
  then show ?thesis by (simp add: initialCollection_def)
next
  case (Inr m)
  have "rewards (snd (processMetrics cfg s m w)) = rewards w" by simp
  then show ?thesis using Inr
    by (cases "processMetrics cfg s m w"; cases "fst (processMetrics cfg s m w)")
       (simp_all add: initialCollection_def)
qed

lemma taskTick_rewards [simp]: "rewards (taskTick cfg s b r w) = rewards w"
  by (simp add: taskTick_def Let_def split: option.splits sum.splits)

lemma run_callback_rewards [simp]: "rewards (run_callback cfg s cb w) = rewards w"
  by (cases cb) simp_all

lemma init_rewards [simp]: "rewards (init cfg s w) = rewards w"
  by (simp add: init_def Let_def)

lemma getMetrics_rewards [simp]: "rewards (snd (getMetrics cfg s w)) = rewards w"
  by (simp add: getMetrics_def Let_def split: sum.splits)

lemma addMonitoringTask_rewards [simp]: "rewards (snd (addMonitoringTask s t w)) = rewards w"
  by (simp add: addMonitoringTask_def scheduleMonitoringTask_def Let_def)

lemma removeMonitoringTask_rewards [simp]:
  "rewards (snd (removeMonitoringTask s taskId w)) = rewards w"
  by (simp add: removeMonitoringTask_def split: option.splits)

lemma signal_handlers_rewards [simp]:
  "rewards (foldl (\<lambda>w' h. if fst h = sg then run_callback cfg s (snd h) w' else w') w hs)
     = rewards w"
  by (induction hs arbitrary: w) simp_all

lemma agent_step_rewards: "rewards (agent_step cfg s a w) = rewards w"
  by (cases a) (simp_all add: Let_def split: sum.splits)

lemma agent_run_rewards: "rewards (agent_run cfg evs w) = rewards w"
proof (induction evs arbitrary: w)
  case Nil
  show ?case by simp
next
  case (Cons x evs)
  obtain s a where "x = (s, a)" by (cases x)
  with Cons.IH [of "agent_step cfg s a w"] show ?case
    by (simp add: agent_step_rewards)
qed

text \<open>
  Claim C1. The claim says that something set up at initialisation invokes
  distributeRewards again and again. In the code no callback registered by init (the
  metrics job, the task jobs, the persistence job, the signal handlers) and no other
  entry point of the agent reaches it: whatever the events of a run and whatever the
  environment answers, no amount is ever handed to \<open>sendReward\<close>, and every registered
  callback leaves the list of issued rewards as it found it.
\<close>

theorem rewards_never_issued:
  "rewards (agent_run cfg evs (initial_world t f)) = []
   \<and> rewards (run_callback cfg s cb w) = rewards w"
  by (simp add: agent_run_rewards initial_world_def)

subsection \<open>The reward decision\<close>

text \<open>
  A call of distributeRewards at time \<open>now\<close> in a state whose \<open>lastRewardTime\<close> is \<open>null\<close>
  or a timestamp other than 0: a reward is handed to \<open>sendReward\<close> if and only if the
  computed uptime percentage is at least 90 and \<open>lastRewardTime\<close> is \<open>null\<close> or
  \<open>now - lastRewardTime >= rewardInterval\<close>. The amount is
  \<open>rewardAmount * (uptimePercentage / 100)\<close>. When \<open>sendReward\<close> returns, \<open>lastRewardTime\<close>
  becomes \<open>now\<close>; when it fails \<open>lastRewardTime\<close> stays; when no reward is issued the
  whole state stays.
\<close>

lemma distributeRewards_gate:
  assumes "lastRewardTime (md w) \<noteq> Some 0"
  shows "issued w (snd (distributeRewards cfg s w)) \<longleftrightarrow>
           uptime_ok (md w) (now (conn_env s)) \<and> reward_due cfg (md w) (now (conn_env s))"
    and "issued w (snd (distributeRewards cfg s w)) \<Longrightarrow>
           \<exists>pct. uptimePercentage (md w) (now (conn_env s)) = Inr pct
             \<and> js_ge pct (Num 90)
             \<and> rewards (snd (distributeRewards cfg s w)) = rewards w @ [reward_for cfg pct]
             \<and> lastRewardTime (md (snd (distributeRewards cfg s w))) =
                 (case sendReward s (reward_for cfg pct) of
                    Inr txId \<Rightarrow> Some (now (conn_env s))
                  | Inl err \<Rightarrow> lastRewardTime (md w))"
    and "\<not> issued w (snd (distributeRewards cfg s w)) \<Longrightarrow> snd (distributeRewards cfg s w) = w"
  using assms
  by (auto simp: distributeRewards_def issued_def uptime_ok_def reward_due_def Let_def
        split: option.splits sum.splits if_splits)

text \<open>
  The threshold in binary64 arithmetic, for an agent never rewarded before. Up 900 s of
  the 1000 s since the start: the percentage is 90 and a reward of 0.09000000000000001 is
  issued. Up 899.9 s: 89.99000000000001 percent, no reward. Up 1.017 s of 1.13 s: the
  product with 1000 is rounded to 1016.9999999999999, the percentage is
  89.99999999999999, and no reward is issued.
\<close>

lemma distributeRewards_examples:
  "distributeRewards default_config sys0 (world_at 1699999000000 None 900)
     = (Rewarded (Num (6485183463413515 / 72057594037927936)) ''tx1'',
        (world_at 1699999000000 None 900)
          \<lparr>rewards := [Num (6485183463413515 / 72057594037927936)],
           md := (md (world_at 1699999000000 None 900))
                   \<lparr>lastRewardTime := Some 1700000000000\<rparr>\<rparr>)"
  "uptimePercentage (md (world_at 1699999000000 None 900)) 1700000000000 = Inr (Num 90)"
  "distributeRewards default_config sys0 (world_at 1699999000000 None (8999 / 10))
     = (UptimeTooLow (Num (395780205534249 / 4398046511104)),
        world_at 1699999000000 None (8999 / 10))"
  "distributeRewards default_config sys0 (world_at 1699999998870 None (1017 / 1000))
     = (UptimeTooLow (Num (6333186975989759 / 70368744177664)),
        world_at 1699999998870 None (1017 / 1000))"
  by (simp_all add: distributeRewards_def default_config_def sys0_def env0_def
        world_at_def initial_world_def initial_monitoringData_def uptimePercentage_def
        totalTime_def reward_for_def Let_def js_num_eval)



subsection \<open>The start time across restarts\<close>

lemma loadPersistedData_startTime:
  "startTime (md (loadPersistedData s w)) =
     (if data_dir_ok s then
        (case data_file w of
           Data d \<Rightarrow>
             (case p_startTime d of
                Some t \<Rightarrow> if t \<noteq> 0 then min (startTime (md w)) t else startTime (md w)
              | None \<Rightarrow> startTime (md w))
         | _ \<Rightarrow> startTime (md w))
      else startTime (md w))"
  by (cases "data_file w")
     (simp_all add: loadPersistedData_def Let_def case_prod_beta split: option.splits)

text \<open>
  When a persisted record with a \<open>startTime\<close> of \<open>T_old\<close> other than 0 is loaded into a
  state whose \<open>startTime\<close> is \<open>T_new\<close>, the \<open>startTime\<close> afterwards is \<open>min(T_old, T_new)\<close>;
  it is \<open>T_old\<close> when \<open>T_new > T_old\<close>, and it is never later than \<open>T_new\<close>.
\<close>

lemma loadPersistedData_min_startTime:
  assumes "data_dir_ok s" and "data_file w = Data d" and "p_startTime d = Some T_old"
    and "T_old \<noteq> 0"
  shows "startTime (md (loadPersistedData s w)) = min T_old (startTime (md w))"
    and "T_old < startTime (md w) \<Longrightarrow> startTime (md (loadPersistedData s w)) = T_old"
  using assms by (auto simp: loadPersistedData_startTime)

lemma loadPersistedData_startTime_le:
  "startTime (md (loadPersistedData s w)) \<le> startTime (md w)"
  by (simp add: loadPersistedData_startTime split: file_state.splits option.splits)

text \<open>
  Claim C9. The claim, and the comment on the line that computes the value (\<open>Always use
  the earlier start time\<close>), make the \<open>startTime\<close> after loading the minimum of the
  persisted and the current one. The line reads
  \<open>Math.min(currentStartTime, data.startTime || currentStartTime)\<close>: a persisted \<open>startTime\<close>
  of 0 is replaced by the current one before the minimum is taken. A record of 1600000000000
  loaded at a start at 1699999000000 gives 1600000000000; a record of 0 loaded at the
  same start leaves 1699999000000, which is not the minimum.
\<close>

theorem loadPersistedData_zero_startTime:
  "startTime (md (loadPersistedData sys0
      (initial_world 1699999000000
         (Data \<lparr> p_startTime = Some 1600000000000, p_lastRewardTime = Some None,
                  p_history = Some [], p_monitoringTasks = Some [] \<rparr>))))
     = 1600000000000
   \<and> startTime (md (loadPersistedData sys0
        (initial_world 1699999000000
           (Data \<lparr> p_startTime = Some 0, p_lastRewardTime = Some None,
                    p_history = Some [], p_monitoringTasks = Some [] \<rparr>))))
     = 1699999000000
   \<and> min (0 :: int) 1699999000000 \<noteq> 1699999000000"
  by (simp add: loadPersistedData_def sys0_def initial_world_def initial_monitoringData_def
        Let_def)

subsection \<open>The bound on the history\<close>

lemma processMetrics_history:
  "history (md (snd (processMetrics cfg s m w))) =
     (case m_uptime m of
        None \<Rightarrow> history (md w)
      | Some u \<Rightarrow>
          if length (history (md w)) < 100 then history (md w) @ [point_of m u]
          else tl (history (md w) @ [point_of m u]))"
  by (simp add: processMetrics_def Let_def split: option.splits)

lemma processMetrics_length:
  "length (history (md w)) \<le> 100 \<Longrightarrow>
     length (history (md (snd (processMetrics cfg s m w)))) \<le> 100"
  by (simp add: processMetrics_history split: option.splits)

lemma persistData_bounded:
  "history_bounded w \<Longrightarrow> history_bounded (snd (persistData s w))"
  by (simp add: history_bounded_def file_history_bounded_def persistData_def)

lemma loadPersistedData_bounded:
  "history_bounded w \<Longrightarrow> history_bounded (loadPersistedData s w)"
  by (cases "data_file w")
     (auto simp: history_bounded_def file_history_bounded_def loadPersistedData_def Let_def
        case_prod_beta split: option.splits)

lemma handleMetricsError_bounded:
  "history_bounded w \<Longrightarrow> history_bounded (handleMetricsError cfg s msg w)"
  by (simp add: history_bounded_def)

lemma processMetrics_bounded:
  "history_bounded w \<Longrightarrow> history_bounded (snd (processMetrics cfg s m w))"
  by (simp add: history_bounded_def processMetrics_length)

lemma metricsTick_bounded:
  assumes "history_bounded w"
  shows "history_bounded (metricsTick cfg s w)"
proof (cases "collectMetrics cfg s w")
  case (Inl err)
  with assms show ?thesis by (simp add: metricsTick_def handleMetricsError_bounded)
next
  case (Inr m)
  obtain r w1 where p: "processMetrics cfg s m w = (r, w1)"
    by (cases "processMetrics cfg s m w")
  from assms have "history_bounded (snd (processMetrics cfg s m w))"
    by (rule processMetrics_bounded)
  with p have b: "history_bounded w1" by simp
  have c: "history_bounded (w1\<lparr>md := (md w1)\<lparr>errors_count := 0, errors_lastError := None\<rparr>\<rparr>)"
    using b by (simp add: history_bounded_def)
  show ?thesis
    using Inr p b c
    by (cases r) (simp_all add: metricsTick_def Let_def persistData_bounded
          handleMetricsError_bounded)
qed

lemma initialCollection_bounded:
  assumes "history_bounded w"
  shows "history_bounded (initialCollection cfg s w)"
proof (cases "collectMetrics cfg s w")
  case (Inl err)
  with assms show ?thesis by (simp add: initialCollection_def handleMetricsError_bounded)
next
  case (Inr m)
  obtain r w1 where p: "processMetrics cfg s m w = (r, w1)"
    by (cases "processMetrics cfg s m w")
  from assms have "history_bounded (snd (processMetrics cfg s m w))"
    by (rule processMetrics_bounded)
  with p have "history_bounded w1" by simp
  with Inr p show ?thesis
    by (cases r) (simp_all add: initialCollection_def handleMetricsError_bounded)
qed

lemma taskTick_bounded:
  assumes "history_bounded w"
  shows "history_bounded (taskTick cfg s b r w)"
proof (cases "task_objs w r")
  case None
  with assms show ?thesis by (simp add: taskTick_def)
next
  case (Some t)
  show ?thesis
  proof (cases "executeMonitoringTask s t")
    case (Inl err)
    with Some assms show ?thesis by (simp add: taskTick_def history_bounded_def)
  next
    case (Inr result)
    have "history_bounded x \<Longrightarrow> history_bounded (x\<lparr>cn := c\<rparr>)"
      and "history_bounded x \<Longrightarrow> history_bounded (x\<lparr>task_objs := h\<rparr>)" for x c h
      by (simp_all add: history_bounded_def)
    with Some Inr assms show ?thesis
      by (simp add: taskTick_def Let_def persistData_bounded)
  qed
qed

lemma run_callback_bounded:
  "history_bounded w \<Longrightarrow> history_bounded (run_callback cfg s cb w)"
  by (cases cb) (simp_all add: metricsTick_bounded taskTick_bounded persistData_bounded)

lemma signal_handlers_bounded:
  "history_bounded w \<Longrightarrow>
     history_bounded
       (foldl (\<lambda>w' h. if fst h = sg then run_callback cfg s (snd h) w' else w') w hs)"
  by (induction hs arbitrary: w) (simp_all add: run_callback_bounded)

lemma init_bounded: "history_bounded w \<Longrightarrow> history_bounded (init cfg s w)"
proof -
  assume "history_bounded w"
  then have "history_bounded (loadPersistedData s w)" by (rule loadPersistedData_bounded)
  then show ?thesis by (simp add: init_def Let_def history_bounded_def)
qed

lemma getMetrics_bounded: "history_bounded w \<Longrightarrow> history_bounded (snd (getMetrics cfg s w))"
  by (simp add: getMetrics_def Let_def processMetrics_bounded split: sum.splits)

lemma addMonitoringTask_bounded:
  "history_bounded w \<Longrightarrow> history_bounded (snd (addMonitoringTask s t w))"
proof -
  assume a: "history_bounded w"
  have "history_bounded x \<Longrightarrow> md x = md w \<Longrightarrow> data_file x = data_file w \<Longrightarrow>
          history_bounded (x\<lparr>md := (md x)\<lparr>monitoringTasks := l\<rparr>\<rparr>)" for x l
    by (simp add: history_bounded_def)
  then show ?thesis using a
    by (simp add: addMonitoringTask_def scheduleMonitoringTask_def Let_def history_bounded_def
          file_history_bounded_def persistData_def)
qed

lemma removeMonitoringTask_bounded:
  "history_bounded w \<Longrightarrow> history_bounded (snd (removeMonitoringTask s taskId w))"
  by (simp add: removeMonitoringTask_def history_bounded_def file_history_bounded_def
        persistData_def split: option.splits)

lemma agent_step_bounded:
  assumes "history_bounded w"
  shows "history_bounded (agent_step cfg s a w)"
proof (cases a)
  case Start
  from assms have "history_bounded (init cfg s w)" by (rule init_bounded)
  with Start show ?thesis by (simp add: Let_def history_bounded_def)
next
  case InitialCollectionDone
  with assms show ?thesis by (simp add: initialCollection_bounded)
next
  case (CronTick i)
  with assms show ?thesis by (simp add: run_callback_bounded)
next
  case (Signalled sg)
  from assms have
    "history_bounded
       (foldl (\<lambda>w' h. if fst h = sg then run_callback cfg s (snd h) w' else w') w
          (signal_handlers w))"
    by (rule signal_handlers_bounded)
  with Signalled show ?thesis by (simp add: Let_def history_bounded_def)
next
  case GetMetricsRoute
  with assms show ?thesis by (simp add: getMetrics_bounded)
next
  case (AddTask t)
  with assms show ?thesis by (simp add: addMonitoringTask_bounded)
next
  case (RemoveTask taskId)
  with assms show ?thesis by (simp add: removeMonitoringTask_bounded)
next
  case (Connection e)
  with assms show ?thesis by (simp add: history_bounded_def)
next
  case RequestedMetricsCollected
  with assms show ?thesis by (simp add: history_bounded_def split: sum.splits)
next
  case (Restart t)
  with assms show ?thesis
    by (simp add: history_bounded_def initial_world_def initial_monitoringData_def)
qed

lemma agent_run_bounded:
  "history_bounded w \<Longrightarrow> history_bounded (agent_run cfg evs w)"
proof (induction evs arbitrary: w)
  case Nil
  then show ?case by simp
next
  case (Cons x evs)
  obtain s a where x: "x = (s, a)" by (cases x)
  from Cons.prems have "history_bounded (agent_step cfg s a w)" by (rule agent_step_bounded)
  then have "history_bounded (agent_run cfg evs (agent_step cfg s a w))" by (rule Cons.IH)
  with x show ?case by simp
qed

text \<open>
  processMetrics on a history of at most 100 points: below 100 points the point of the
  snapshot is appended; at 100 points it is appended and the first point is dropped, the
  other points keeping their order; the result holds at most 100 points. The bound holds
  throughout every run of an agent, restarts included, that starts without a data file
  or with one whose history respects the bound, as every file the agent writes then
  does.
\<close>

lemma history_fifo:
  "length (history (md w)) < 100 \<Longrightarrow> m_uptime m = Some u \<Longrightarrow>
     history (md (snd (processMetrics cfg s m w))) = history (md w) @ [point_of m u]"
  "length (history (md w)) = 100 \<Longrightarrow> m_uptime m = Some u \<Longrightarrow>
     history (md (snd (processMetrics cfg s m w))) = tl (history (md w)) @ [point_of m u]"
  "length (history (md w)) \<le> 100 \<Longrightarrow>
     length (history (md (snd (processMetrics cfg s m w)))) \<le> 100"
  "file_history_bounded f \<Longrightarrow>
     length (history (md (agent_run cfg evs (initial_world t f)))) \<le> 100"
proof -
  show "history (md (snd (processMetrics cfg s m w))) = history (md w) @ [point_of m u]"
    if "length (history (md w)) < 100" "m_uptime m = Some u"
    using that by (simp add: processMetrics_history)
  show "history (md (snd (processMetrics cfg s m w))) = tl (history (md w)) @ [point_of m u]"
    if a: "length (history (md w)) = 100" "m_uptime m = Some u"
  proof -
    from a have "history (md w) \<noteq> []" by auto
    with a show ?thesis by (simp add: processMetrics_history)
  qed
  show "length (history (md (snd (processMetrics cfg s m w)))) \<le> 100"
    if "length (history (md w)) \<le> 100"
    using that by (rule processMetrics_length)
  show "length (history (md (agent_run cfg evs (initial_world t f)))) \<le> 100"
    if "file_history_bounded f"
  proof -
    from that have "history_bounded (initial_world t f)"
      by (simp add: history_bounded_def initial_world_def initial_monitoringData_def)
    then have "history_bounded (agent_run cfg evs (initial_world t f))"
      by (rule agent_run_bounded)
    then show ?thesis by (simp add: history_bounded_def)
  qed
qed

text \<open>
  Any number of executions of processMetrics, one after the other, on a history of at
  most 100 points: the history afterwards is the last 100 of the points it held followed
  by the points pushed.
\<close>

lemma process_all_history:
  "length (history (md w)) \<le> 100 \<Longrightarrow>
     history (md (process_all cfg s ms w)) =
       drop (length (history (md w) @ points_of ms) - 100) (history (md w) @ points_of ms)"
proof (induction ms arbitrary: w)
  case Nil
  then show ?case by (simp add: process_all_def points_of_def)
next
  case (Cons m ms)
  let ?w1 = "snd (processMetrics cfg s m w)"
  have step: "process_all cfg s (m # ms) w = process_all cfg s ms ?w1"
    by (simp add: process_all_def)
  from Cons.prems have b: "length (history (md ?w1)) \<le> 100" by (rule processMetrics_length)
  note ih = Cons.IH [OF b]
  show ?case
  proof (cases "m_uptime m")
    case None
    then have "history (md ?w1) = history (md w)" "points_of (m # ms) = points_of ms"
      by (simp_all add: processMetrics_history points_of_def)
    with ih step show ?thesis by simp
  next
    case (Some u)
    then have p: "points_of (m # ms) = point_of m u # points_of ms"
      by (simp add: points_of_def)
    show ?thesis
    proof (cases "length (history (md w)) < 100")
      case True
      with Some have "history (md ?w1) = history (md w) @ [point_of m u]"
        by (simp add: processMetrics_history)
      with ih step p show ?thesis by simp
    next
      case False
      with Cons.prems have l: "length (history (md w)) = 100" by simp
      then obtain x t where h: "history (md w) = x # t" by (cases "history (md w)") auto
      with l have t: "length t = 99" by simp
      from Some False h have "history (md ?w1) = t @ [point_of m u]"
        by (simp add: processMetrics_history)
      with ih step p h t show ?thesis by simp
    qed
  qed
qed

text \<open>
  One hundred snapshots processed by a fresh agent give their hundred points; with one
  more, the first point is the one of the second snapshot.
\<close>

lemma points_of_snapshot_at: "points_of (map snapshot_at xs) = map point_at xs"
  by (induction xs)
     (simp_all add: points_of_def snapshot_at_def point_at_def point_of_def snapshot0_def)

lemma history_101_pushes:
  "history (md (process_all default_config sys0 (map snapshot_at [0..<100])
                  (initial_world 1699999000000 NoFile))) = map point_at [0..<100]"
  "history (md (process_all default_config sys0 (map snapshot_at [0..<101])
                  (initial_world 1699999000000 NoFile))) = map point_at [1..<101]"
  "hd (map point_at [0..<100]) = point_at 0"
  "hd (map point_at [1..<101]) = point_at 1"
  "hp_timestamp (point_at 0) = 1700000000000"
  "hp_timestamp (point_at 1) = 1700000060000"
proof -
  have e: "length (history (md (initial_world 1699999000000 NoFile))) \<le> 100"
    "history (md (initial_world 1699999000000 NoFile)) = []"
    by (simp_all add: initial_world_def initial_monitoringData_def)
  show "history (md (process_all default_config sys0 (map snapshot_at [0..<100])
                  (initial_world 1699999000000 NoFile))) = map point_at [0..<100]"
    by (simp add: process_all_history [OF e(1)] e(2) points_of_snapshot_at)
  have "drop 1 (map point_at [0..<101]) = map point_at [1..<101]"
    by (simp only: drop_map drop_upt) simp
  then show "history (md (process_all default_config sys0 (map snapshot_at [0..<101])
                  (initial_world 1699999000000 NoFile))) = map point_at [1..<101]"
    by (simp add: process_all_history [OF e(1)] e(2) points_of_snapshot_at)
  show "hd (map point_at [0..<100]) = point_at 0"
    by (simp add: hd_map)
  show "hd (map point_at [1..<101]) = point_at 1"
    by (simp add: hd_map)
  show "hp_timestamp (point_at 0) = 1700000000000" "hp_timestamp (point_at 1) = 1700000060000"
    by (simp_all add: point_at_def)
qed

lemma initialCollection_history:
  assumes "collectMetrics cfg s w = Inr m"
  shows "history (md (initialCollection cfg s w)) = history (md (snd (processMetrics cfg s m w)))"
  using assms
  by (cases "processMetrics cfg s m w"; cases "fst (processMetrics cfg s m w)")
     (simp_all add: initialCollection_def handleMetricsError_def Let_def)

lemma uptime_reading_client:
  "up_client (uptime_reading p m) = real_of_int (uptime_now p - startTime m) / 1000"
  by (simp add: uptime_reading_def)

lemma long_history_length: "length long_history = 150"
  by (simp add: long_history_def)

text \<open>
  Claim C4. The claim bounds the history by 100 after every execution of processMetrics,
  and the comment above the push reads \<open>Keep history (last 100 entries)\<close>. processMetrics
  drops one point per push, and loadPersistedData takes the history of the data file as
  it is. An agent started with a data file that holds 150 history points has 150 points
  after the start, and after the execution of processMetrics in its first collection it
  has the last 149 of them and the new point: 150 points again.
\<close>

theorem history_over_100_kept:
  "history (md (agent_run default_config [(sys0, Start)]
                  (initial_world 1699999000000 long_file))) = long_history
   \<and> length long_history = 150
   \<and> history (md (agent_run default_config [(sys0, Start), (sys0, InitialCollectionDone)]
                    (initial_world 1699999000000 long_file)))
       = tl long_history @
           [\<lparr> hp_timestamp = 1700000000000, hp_cpu = Some 25, hp_memory = Some (Num 75),
              hp_uptime = 10000 \<rparr>]
   \<and> length (history (md (agent_run default_config
                    [(sys0, Start), (sys0, InitialCollectionDone)]
                    (initial_world 1699999000000 long_file)))) = 150"
proof -
  define w1 where
    "w1 = agent_step default_config sys0 Start (initial_world 1699999000000 long_file)"
  have h1: "history (md w1) = long_history"
    by (simp add: w1_def init_def loadPersistedData_def long_file_def sys0_def initial_world_def
          initial_monitoringData_def Let_def)
  have st: "startTime (md w1) = 1699990000000"
    by (simp add: w1_def init_def loadPersistedData_def long_file_def sys0_def initial_world_def
          initial_monitoringData_def Let_def)
  have c: "cpu_reading (prov sys0)
             = Inr \<lparr>cpu_usage = 25, cpu_cores = 1, cpu_model = ''cpu'', cpu_speed = 2400\<rparr>"
    by (simp add: cpu_reading_def sys0_def)
  from collectMetrics_fields [OF c, of default_config w1]
  obtain m where m: "collectMetrics default_config sys0 w1 = Inr m"
    "m_cpu m = Some \<lparr>cpu_usage = 25, cpu_cores = 1, cpu_model = ''cpu'', cpu_speed = 2400\<rparr>"
    "m_memory m = Some (memory_reading (prov sys0))"
    "m_uptime m = Some (uptime_reading (prov sys0) (md w1))"
    by (auto simp: default_config_def)
  have ts: "m_timestamp m = 1700000000000"
    using m(1) by (auto simp: collectMetrics_def Let_def sys0_def env0_def split: sum.splits)
  have mem: "mem_usagePercentage (memory_reading (prov sys0)) = Num 75"
    by (simp add: memory_reading_def sys0_def Let_def js_num_eval)
  have up: "up_client (uptime_reading (prov sys0) (md w1)) = 10000"
    by (simp add: uptime_reading_client st) (simp add: sys0_def)
  have p: "point_of m (uptime_reading (prov sys0) (md w1))
             = \<lparr> hp_timestamp = 1700000000000, hp_cpu = Some 25, hp_memory = Some (Num 75),
                 hp_uptime = 10000 \<rparr>"
    by (simp add: point_of_def m ts mem up)
  have ne: "long_history \<noteq> []" using long_history_length by auto
  have "history (md (initialCollection default_config sys0 w1))
          = tl long_history @ [point_of m (uptime_reading (prov sys0) (md w1))]"
    using ne by (simp add: initialCollection_history [OF m(1)] processMetrics_history m(4) h1
          long_history_length)
  with p have h2: "history (md (initialCollection default_config sys0 w1))
          = tl long_history @
              [\<lparr> hp_timestamp = 1700000000000, hp_cpu = Some 25, hp_memory = Some (Num 75),
                 hp_uptime = 10000 \<rparr>]"
    by simp
  have l: "length (tl long_history) = 149" by (simp add: long_history_length)
  have r1: "agent_run default_config [(sys0, Start)] (initial_world 1699999000000 long_file) = w1"
    by (simp only: agent_run.simps w1_def)
  have r2: "agent_run default_config [(sys0, Start), (sys0, InitialCollectionDone)]
              (initial_world 1699999000000 long_file) = initialCollection default_config sys0 w1"
    by (simp only: agent_run.simps agent_step.simps(2) w1_def)
  show ?thesis by (simp only: r1 r2 h1 h2) (simp add: long_history_length l)
qed


subsection \<open>Failures of single metric domains\<close>

lemma processMetrics_ok:
  "m_cpu m \<noteq> None \<Longrightarrow> m_memory m \<noteq> None \<Longrightarrow> m_uptime m \<noteq> None \<Longrightarrow>
     fst (processMetrics cfg s m w) = None"
  by (auto simp: processMetrics_def Let_def split: option.splits)

lemma metricsTick_ok:
  assumes c: "collectMetrics cfg s w = Inr m"
    and p: "fst (processMetrics cfg s m w) = None"
  shows "errors_count (md (metricsTick cfg s w)) = 0"
proof -
  obtain w1 where w1: "processMetrics cfg s m w = (None, w1)"
    using p by (cases "processMetrics cfg s m w") simp
  show ?thesis using c w1 by (simp add: metricsTick_def Let_def)
qed

lemma race_timeout_late:
  "race_timeout msg NeverSettles = Inl msg"
  "5000 \<le> t \<Longrightarrow> race_timeout msg (Resolves t v) = Inl msg"
  "5000 \<le> t \<Longrightarrow> race_timeout msg (Rejects t err) = Inl msg"
  by (simp_all add: race_timeout_def)

lemma metricsTick_collect_fails:
  "collectMetrics cfg s w = Inl err \<Longrightarrow>
     errors_count (md (metricsTick cfg s w)) = errors_count (md w) + 1"
  by (simp add: metricsTick_def handleMetricsError_def Let_def)

text \<open>
  Claim C7, as amended. In collectMetrics the disk and the network domains are each
  raced against a timer of 5000 ms inside a handler of their own: when the provider of
  one of them times out or fails, the snapshot carries that domain's error marker, the
  readings of the other domains are what they are without the failure, the collection
  returns the snapshot, and the scheduled collection does not count an error (it leaves
  \<open>errors.count\<close> at 0). In particular a disk provider that has not settled after 5000 ms
  gives valid cpu and memory readings and the disk marker. This holds when the cpu block
  itself does not throw and cpu, memory and uptime are enabled, as they are in the
  shipped configuration. The cpu, memory and uptime domains have no timer and no handler
  of their own: when the cpu block throws, collectMetrics throws and the scheduled
  collection counts one more error.
\<close>

theorem collectMetrics_disk_network_isolated:
  "(metrics_cpu cfg \<and> metrics_memory cfg \<and> metrics_uptime cfg \<and> cpu_reading (prov s) = Inr c \<longrightarrow>
      (\<exists>m. collectMetrics cfg s w = Inr m
            \<and> m_cpu m = Some c
            \<and> m_memory m = Some (memory_reading (prov s))
            \<and> m_uptime m = Some (uptime_reading (prov s) (md w))
            \<and> m_disk m = (if metrics_disk cfg then disk_reading (prov s) else NoReading)
            \<and> m_network m = (if metrics_network cfg then network_reading (prov s) else NoReading))
      \<and> errors_count (md (metricsTick cfg s w)) = 0)
   \<and> (si_fsSize (prov s) = NeverSettles
        \<or> (\<exists>t v. 5000 \<le> t \<and> si_fsSize (prov s) = Resolves t v)
        \<or> (\<exists>t err. 5000 \<le> t \<and> si_fsSize (prov s) = Rejects t err) \<longrightarrow>
       disk_reading (prov s) = ErrorMarker ''Disk metrics collection timeout'')
   \<and> (\<forall>t err. t < 5000 \<and> si_fsSize (prov s) = Rejects t err \<longrightarrow>
         disk_reading (prov s) = ErrorMarker err)
   \<and> (si_networkStats (prov s) = NeverSettles
        \<or> (\<exists>t v. 5000 \<le> t \<and> si_networkStats (prov s) = Resolves t v)
        \<or> (\<exists>t err. 5000 \<le> t \<and> si_networkStats (prov s) = Rejects t err) \<longrightarrow>
       network_reading (prov s) = ErrorMarker ''Network metrics collection timeout'')
   \<and> (\<forall>t err. t < 5000 \<and> si_networkStats (prov s) = Rejects t err \<longrightarrow>
         network_reading (prov s) = ErrorMarker err)
   \<and> (metrics_cpu cfg \<and> cpu_reading (prov s) = Inl msg \<longrightarrow>
        collectMetrics cfg s w = Inl msg
        \<and> errors_count (md (metricsTick cfg s w)) = errors_count (md w) + 1)"
proof -
  have ok: "(\<exists>m. collectMetrics cfg s w = Inr m
            \<and> m_cpu m = Some c
            \<and> m_memory m = Some (memory_reading (prov s))
            \<and> m_uptime m = Some (uptime_reading (prov s) (md w))
            \<and> m_disk m = (if metrics_disk cfg then disk_reading (prov s) else NoReading)
            \<and> m_network m = (if metrics_network cfg then network_reading (prov s) else NoReading))
      \<and> errors_count (md (metricsTick cfg s w)) = 0"
    if a: "metrics_cpu cfg \<and> metrics_memory cfg \<and> metrics_uptime cfg
           \<and> cpu_reading (prov s) = Inr c"
  proof -
    from a collectMetrics_fields [of s c cfg w]
    obtain m where m: "collectMetrics cfg s w = Inr m"
      "m_cpu m = Some c"
      "m_memory m = Some (memory_reading (prov s))"
      "m_disk m = (if metrics_disk cfg then disk_reading (prov s) else NoReading)"
      "m_network m = (if metrics_network cfg then network_reading (prov s) else NoReading)"
      "m_uptime m = Some (uptime_reading (prov s) (md w))"
      by auto
    have "fst (processMetrics cfg s m w) = None"
      using m by (intro processMetrics_ok) simp_all
    with m have "errors_count (md (metricsTick cfg s w)) = 0"
      by (intro metricsTick_ok)
    with m show ?thesis by blast
  qed
  have d: "si_fsSize (prov s) = NeverSettles
              \<or> (\<exists>t v. 5000 \<le> t \<and> si_fsSize (prov s) = Resolves t v)
              \<or> (\<exists>t err. 5000 \<le> t \<and> si_fsSize (prov s) = Rejects t err) \<longrightarrow>
             disk_reading (prov s) = ErrorMarker ''Disk metrics collection timeout''"
    by (auto simp: disk_reading_def race_timeout_late)
  have d': "\<forall>t err. t < 5000 \<and> si_fsSize (prov s) = Rejects t err \<longrightarrow>
               disk_reading (prov s) = ErrorMarker err"
    by (auto simp: disk_reading_def race_timeout_def)
  have n: "si_networkStats (prov s) = NeverSettles
              \<or> (\<exists>t v. 5000 \<le> t \<and> si_networkStats (prov s) = Resolves t v)
              \<or> (\<exists>t err. 5000 \<le> t \<and> si_networkStats (prov s) = Rejects t err) \<longrightarrow>
             network_reading (prov s) = ErrorMarker ''Network metrics collection timeout''"
    by (auto simp: network_reading_def race_timeout_late)
  have n': "\<forall>t err. t < 5000 \<and> si_networkStats (prov s) = Rejects t err \<longrightarrow>
               network_reading (prov s) = ErrorMarker err"
    by (auto simp: network_reading_def race_timeout_def)
  have bad: "collectMetrics cfg s w = Inl msg
        \<and> errors_count (md (metricsTick cfg s w)) = errors_count (md w) + 1"
    if b: "metrics_cpu cfg \<and> cpu_reading (prov s) = Inl msg"
  proof -
    from b have "collectMetrics cfg s w = Inl msg"
      by (simp add: collectMetrics_def Let_def)
    then show ?thesis by (simp add: metricsTick_collect_fails)
  qed
  from ok d d' n n' bad show ?thesis by blast
qed

text \<open>
  The disk provider answers after 7000 ms: cpu usage 25, memory 75 percent, the disk
  marker, and no error counted by the scheduled collection. The disk provider rejects at
  once and the network provider never settles: both markers, and no error counted. No
  cpu listed by the system: the cpu block throws and one error is counted.
\<close>

theorem collectMetrics_disk_network_isolated_witness:
  "cpu_reading (prov (sys0\<lparr>prov := (prov sys0)\<lparr>si_fsSize := Resolves 7000 []\<rparr>\<rparr>))
     = Inr \<lparr>cpu_usage = 25, cpu_cores = 1, cpu_model = ''cpu'', cpu_speed = 2400\<rparr>
   \<and> metrics_cpu default_config \<and> metrics_memory default_config \<and> metrics_uptime default_config
   \<and> disk_reading (prov (sys0\<lparr>prov := (prov sys0)\<lparr>si_fsSize := Resolves 7000 []\<rparr>\<rparr>))
     = ErrorMarker ''Disk metrics collection timeout''
   \<and> mem_usagePercentage (memory_reading (prov sys0)) = Num 75
   \<and> errors_count (md (metricsTick default_config
         (sys0\<lparr>prov := (prov sys0)\<lparr>si_fsSize := Resolves 7000 []\<rparr>\<rparr>)
         (initial_world 1699999000000 NoFile))) = 0
   \<and> disk_reading (prov (sys0\<lparr>prov := (prov sys0)
         \<lparr>si_fsSize := Rejects 10 ''EIO'', si_networkStats := NeverSettles\<rparr>\<rparr>))
     = ErrorMarker ''EIO''
   \<and> network_reading (prov (sys0\<lparr>prov := (prov sys0)
         \<lparr>si_fsSize := Rejects 10 ''EIO'', si_networkStats := NeverSettles\<rparr>\<rparr>))
     = ErrorMarker ''Network metrics collection timeout''
   \<and> errors_count (md (metricsTick default_config
         (sys0\<lparr>prov := (prov sys0)
            \<lparr>si_fsSize := Rejects 10 ''EIO'', si_networkStats := NeverSettles\<rparr>\<rparr>)
         (initial_world 1699999000000 NoFile))) = 0
   \<and> cpu_reading (prov (sys0\<lparr>prov := (prov sys0)\<lparr>os_cpus := []\<rparr>\<rparr>))
       = Inl ''Cannot read properties of undefined (reading 'model')''
   \<and> errors_count (md (metricsTick default_config
         (sys0\<lparr>prov := (prov sys0)\<lparr>os_cpus := []\<rparr>\<rparr>)
         (initial_world 1699999000000 NoFile))) = 1"
  using collectMetrics_disk_network_isolated
    [of default_config "sys0\<lparr>prov := (prov sys0)\<lparr>os_cpus := []\<rparr>\<rparr>"
        "\<lparr>cpu_usage = 25, cpu_cores = 1, cpu_model = ''cpu'', cpu_speed = 2400\<rparr>"
        "initial_world 1699999000000 NoFile"
        "''Cannot read properties of undefined (reading 'model')''"]
    collectMetrics_disk_network_isolated
    [of default_config "sys0\<lparr>prov := (prov sys0)\<lparr>si_fsSize := Resolves 7000 []\<rparr>\<rparr>"
        "\<lparr>cpu_usage = 25, cpu_cores = 1, cpu_model = ''cpu'', cpu_speed = 2400\<rparr>"
        "initial_world 1699999000000 NoFile" "''none''"]
    collectMetrics_disk_network_isolated
    [of default_config
        "sys0\<lparr>prov := (prov sys0)
           \<lparr>si_fsSize := Rejects 10 ''EIO'', si_networkStats := NeverSettles\<rparr>\<rparr>"
        "\<lparr>cpu_usage = 25, cpu_cores = 1, cpu_model = ''cpu'', cpu_speed = 2400\<rparr>"
        "initial_world 1699999000000 NoFile" "''none''"]
  by (simp add: sys0_def default_config_def disk_reading_def network_reading_def
        race_timeout_def cpu_reading_def memory_reading_def initial_world_def
        initial_monitoringData_def Let_def js_num_eval)

text \<open>
  The claim as stated covers every enabled domain. When \<open>os.cpus()\<close> is empty the cpu
  block throws: collectMetrics throws instead of returning a snapshot with a marker, and
  the scheduled collection counts an error.
\<close>

theorem cpu_failure_aborts_collection:
  "collectMetrics default_config (sys0\<lparr>prov := (prov sys0)\<lparr>os_cpus := []\<rparr>\<rparr>)
      (initial_world 1699999000000 NoFile)
     = Inl ''Cannot read properties of undefined (reading 'model')''
   \<and> errors_count (md (initial_world 1699999000000 NoFile)) = 0
   \<and> errors_count (md (metricsTick default_config (sys0\<lparr>prov := (prov sys0)\<lparr>os_cpus := []\<rparr>\<rparr>)
        (initial_world 1699999000000 NoFile))) = 1"
  by (simp add: collectMetrics_def cpu_reading_def metricsTick_def handleMetricsError_def sys0_def
        default_config_def initial_world_def initial_monitoringData_def Let_def)


subsection \<open>Removing a task\<close>

lemma findIndex_None: "findIndex P xs = None \<longleftrightarrow> (\<forall>x\<in>set xs. \<not> P x)"
  by (induction xs) auto

lemma findIndex_Some:
  "findIndex P xs = Some i \<Longrightarrow>
     \<exists>pre x post. xs = pre @ x # post \<and> length pre = i \<and> P x \<and> (\<forall>y\<in>set pre. \<not> P y)"
proof (induction xs arbitrary: i)
  case Nil
  then show ?case by simp
next
  case (Cons a xs)
  show ?case
  proof (cases "P a")
    case True
    with Cons.prems have "i = 0" by simp
    with True show ?thesis by (intro exI [of _ "[]"]) auto
  next
    case False
    with Cons.prems obtain j where j: "findIndex P xs = Some j" "i = Suc j" by auto
    from Cons.IH [OF j(1)] obtain pre x post where
      "xs = pre @ x # post" "length pre = j" "P x" "\<forall>y\<in>set pre. \<not> P y" by blast
    with False j(2) show ?thesis
      by (intro exI [of _ "a # pre"] exI [of _ x] exI [of _ post]) auto
  qed
qed

text \<open>
  Claim C8, as amended. removeMonitoringTask returns true when a task of the list has
  the given id, and then removes the first such task from the list, the others keeping
  their order; it returns false and changes nothing when no task of the list has the id.
  It touches neither the registered cron jobs nor the task objects, so the job that was
  scheduled for the removed task is left registered.
\<close>

theorem removeMonitoringTask_result:
  "((\<exists>r\<in>set (monitoringTasks (md w)). has_id w taskId r) \<longrightarrow>
      fst (removeMonitoringTask s taskId w)
      \<and> (\<exists>pre r post.
            monitoringTasks (md w) = pre @ r # post
            \<and> has_id w taskId r \<and> (\<forall>x\<in>set pre. \<not> has_id w taskId x)
            \<and> monitoringTasks (md (snd (removeMonitoringTask s taskId w))) = pre @ post))
   \<and> ((\<forall>r\<in>set (monitoringTasks (md w)). \<not> has_id w taskId r) \<longrightarrow>
        removeMonitoringTask s taskId w = (False, w))
   \<and> jobs (snd (removeMonitoringTask s taskId w)) = jobs w
   \<and> task_objs (snd (removeMonitoringTask s taskId w)) = task_objs w"
proof (cases "findIndex (has_id w taskId) (monitoringTasks (md w))")
  case None
  then have "\<forall>r\<in>set (monitoringTasks (md w)). \<not> has_id w taskId r"
    by (simp add: findIndex_None)
  with None show ?thesis by (simp add: removeMonitoringTask_def)
next
  case (Some i)
  from findIndex_Some [OF Some] obtain pre r post where
    x: "monitoringTasks (md w) = pre @ r # post" "length pre = i" "has_id w taskId r"
       "\<forall>y\<in>set pre. \<not> has_id w taskId y"
    by blast
  have "take i (monitoringTasks (md w)) @ drop (Suc i) (monitoringTasks (md w)) = pre @ post"
    using x(1,2) by simp
  then have "monitoringTasks (md (snd (removeMonitoringTask s taskId w))) = pre @ post"
    using Some by (simp add: removeMonitoringTask_def)
  moreover have "fst (removeMonitoringTask s taskId w)"
    using Some by (simp add: removeMonitoringTask_def)
  moreover have "jobs (snd (removeMonitoringTask s taskId w)) = jobs w"
    and "task_objs (snd (removeMonitoringTask s taskId w)) = task_objs w"
    using Some by (simp_all add: removeMonitoringTask_def)
  moreover have "\<not> (\<forall>r\<in>set (monitoringTasks (md w)). \<not> has_id w taskId r)"
    using x(1,3) by auto
  ultimately show ?thesis using x by blast
qed

lemma world_with_task_eq:
  "world_with_task =
     \<lparr> md = (initial_monitoringData 1699999000000)\<lparr>monitoringTasks := [0]\<rparr>,
       task_objs = [0 \<mapsto> ping_task], next_ref = 1,
       jobs = [\<lparr>job_cron = EveryMinutes 2, job_callback = TaskRun 0\<rparr>],
       signal_handlers = [],
       data_file = Data \<lparr> p_startTime = Some 1699999000000, p_lastRewardTime = Some None,
                           p_history = Some [], p_monitoringTasks = Some [ping_task] \<rparr>,
       cn = initial_conn, rewards = [] \<rparr>"
  by (simp add: world_with_task_def addMonitoringTask_def scheduleMonitoringTask_def
        persistData_def initial_world_def initial_monitoringData_def ping_task_def sys0_def
        cron_of_interval_def tasks_of_def List.map_filter_def Let_def)

text \<open>
  One task with id \<open>t1\<close>: removing \<open>t1\<close> returns true and empties the list; removing \<open>t2\<close>
  returns false and changes nothing.
\<close>

theorem removeMonitoringTask_result_witness:
  "monitoringTasks (md world_with_task) = [0]
   \<and> has_id world_with_task ''t1'' 0
   \<and> fst (removeMonitoringTask sys0 ''t1'' world_with_task)
   \<and> monitoringTasks (md (snd (removeMonitoringTask sys0 ''t1'' world_with_task))) = []
   \<and> \<not> has_id world_with_task ''t2'' 0
   \<and> removeMonitoringTask sys0 ''t2'' world_with_task = (False, world_with_task)"
  using removeMonitoringTask_result [of world_with_task "''t1''" sys0]
    removeMonitoringTask_result [of world_with_task "''t2''" sys0]
  by (simp add: world_with_task_eq has_id_def ping_task_def removeMonitoringTask_def)

text \<open>
  The claim as stated says the removed task's action never runs again. A task is added
  with an interval of 120000 ms and removed: the list is empty, its job is still
  registered, and the next tick of that job runs the check and stamps the removed task
  object with the time of the run.
\<close>

theorem removed_task_still_runs:
  "fst (removeMonitoringTask sys0 ''t1'' world_with_task)
   \<and> monitoringTasks (md (snd (removeMonitoringTask sys0 ''t1'' world_with_task))) = []
   \<and> jobs (snd (removeMonitoringTask sys0 ''t1'' world_with_task))
       = [\<lparr>job_cron = EveryMinutes 2, job_callback = TaskRun 0\<rparr>]
   \<and> map_option task_lastRunTime
        (task_objs (snd (removeMonitoringTask sys0 ''t1'' world_with_task)) 0) = Some None
   \<and> map_option task_lastRunTime
        (task_objs (agent_step default_config sys0 (CronTick 0)
                      (snd (removeMonitoringTask sys0 ''t1'' world_with_task))) 0)
       = Some (Some 1700000000000)"
  by (simp add: world_with_task_eq has_id_def ping_task_def removeMonitoringTask_def
        taskTick_def executeMonitoringTask_def persistData_def sys0_def env0_def
        send.simps [of _ _ _ _ _ initial_conn] initial_conn_def Let_def)

subsection \<open>Reading the metrics\<close>

lemma connect_log [simp]: "ws_log (connect cfg e c) = ws_log c"
  by (simp add: connect_def scheduleReconnect_def Let_def)

lemma send_checkConnection_log:
  "\<exists>rest. ws_log (snd (send cfg e ty d p c)) = ws_log c @ rest"
  "\<exists>rest. ws_log (snd (checkConnection cfg e c)) = ws_log c @ rest"
proof (induction cfg e ty d p c and cfg e c rule: send_checkConnection.induct)
  case (1 cfg e ty d p c)
  show ?case
    unfolding send.simps [of cfg e ty d p c]
    using 1 by (cases "p = High"; cases "ws_send_ok c"; cases "isConnected c") (auto simp: Let_def)
next
  case (2 cfg e c)
  show ?case
    unfolding checkConnection.simps [of cfg e c]
    using 2 by (cases "isConnected c") auto
qed

lemma send_connected_log:
  assumes "isConnected c"
  shows "\<exists>rest. ws_log (snd (send cfg e ty d p c)) =
           ws_log c @
             (\<lparr>msg_type = ty, msg_data = d, msg_timestamp = now e, msg_priority = p\<rparr>,
              ws_send_ok c) # rest"
proof (cases "ws_send_ok c")
  case True
  with assms show ?thesis by (simp add: send.simps [of cfg e ty d p c] Let_def)
next
  case False
  let ?m = "\<lparr>msg_type = ty, msg_data = d, msg_timestamp = now e, msg_priority = p\<rparr>"
  let ?c = "if p = High then (ws_send ?m c)\<lparr>pendingMessages := pendingMessages c @ [?m]\<rparr>
            else ws_send ?m c"
  obtain rest where "ws_log (snd (checkConnection cfg e ?c)) = ws_log ?c @ rest"
    using send_checkConnection_log(2) by blast
  moreover have "ws_log ?c = ws_log c @ [(?m, ws_send_ok c)]" by simp
  moreover have "snd (send cfg e ty d p c) = snd (checkConnection cfg e ?c)"
    using assms False by (simp add: send.simps [of cfg e ty d p c] Let_def)
  ultimately show ?thesis by simp
qed

lemma processMetrics_effects:
  assumes u: "m_uptime m = Some u"
  shows "metrics (md (snd (processMetrics cfg s m w))) = current_of m"
    and "isConnected (cn w) \<and> registered (user (conn_env s)) \<Longrightarrow>
           \<exists>rest. ws_log (cn (snd (processMetrics cfg s m w))) =
              ws_log (cn w) @ (metrics_message (conn_env s) m, ws_send_ok (cn w)) # rest"
    and "\<not> (isConnected (cn w) \<and> registered (user (conn_env s))) \<Longrightarrow>
           cn (snd (processMetrics cfg s m w)) = cn w"
proof -
  show "metrics (md (snd (processMetrics cfg s m w))) = current_of m"
    using u by (simp add: processMetrics_def Let_def)
  show "\<exists>rest. ws_log (cn (snd (processMetrics cfg s m w))) =
              ws_log (cn w) @ (metrics_message (conn_env s) m, ws_send_ok (cn w)) # rest"
    if "isConnected (cn w) \<and> registered (user (conn_env s))"
    using u that send_connected_log [of "cn w" cfg "conn_env s" "''metrics''"
        "MetricsData (nodeId (user (conn_env s))) (publicKey (user (conn_env s))) m" Normal]
    by (simp add: processMetrics_def Let_def isSocketConnected_def sendMetrics_def
          metrics_message_def)
  show "cn (snd (processMetrics cfg s m w)) = cn w"
    if "\<not> (isConnected (cn w) \<and> registered (user (conn_env s)))"
    using u that
    by (auto simp: processMetrics_def Let_def isSocketConnected_def sendMetrics_def)
qed

text \<open>
  Claim C10, as amended. getMetrics changes nothing when a cpu usage other than 0 is
  stored, and nothing when the collection it starts throws. When no cpu usage is stored
  and the collection returns a snapshot (with an uptime reading, as under the shipped
  configuration), getMetrics replaces the current metrics by the snapshot's, appends its
  history point (dropping the first point of a full history), and hands a metrics
  message to the transport when the connection is open and the user is registered; when
  the connection is closed or the user is not registered, the connection state is
  untouched. A snapshot without uptime reading only replaces the current metrics.
\<close>

theorem getMetrics_effects:
  "(cur_cpu (metrics (md w)) = Some c \<and> cpu_usage c \<noteq> 0 \<longrightarrow> snd (getMetrics cfg s w) = w)
   \<and> (cur_cpu (metrics (md w)) = None \<and> collectMetrics cfg s w = Inl err \<longrightarrow>
        snd (getMetrics cfg s w) = w)
   \<and> (cur_cpu (metrics (md w)) = None \<and> collectMetrics cfg s w = Inr m \<and> m_uptime m = Some u \<longrightarrow>
        metrics (md (snd (getMetrics cfg s w))) = current_of m
        \<and> history (md (snd (getMetrics cfg s w))) =
            (if length (history (md w)) < 100 then history (md w) @ [point_of m u]
             else tl (history (md w) @ [point_of m u]))
        \<and> (if isConnected (cn w) \<and> registered (user (conn_env s))
           then \<exists>rest. ws_log (cn (snd (getMetrics cfg s w))) =
                  ws_log (cn w) @ (metrics_message (conn_env s) m, ws_send_ok (cn w)) # rest
           else cn (snd (getMetrics cfg s w)) = cn w))
   \<and> (cur_cpu (metrics (md w)) = None \<and> collectMetrics cfg s w = Inr m \<and> m_uptime m = None \<longrightarrow>
        snd (getMetrics cfg s w) = w\<lparr>md := (md w)\<lparr>metrics := current_of m\<rparr>\<rparr>)"
proof (intro conjI impI)
  assume "cur_cpu (metrics (md w)) = None \<and> collectMetrics cfg s w = Inr m \<and> m_uptime m = None"
  then show "snd (getMetrics cfg s w) = w\<lparr>md := (md w)\<lparr>metrics := current_of m\<rparr>\<rparr>"
    by (simp add: getMetrics_def no_cpu_usage_def processMetrics_def Let_def)
next
  assume "cur_cpu (metrics (md w)) = Some c \<and> cpu_usage c \<noteq> 0"
  then show "snd (getMetrics cfg s w) = w" by (simp add: getMetrics_def no_cpu_usage_def Let_def)
next
  assume "cur_cpu (metrics (md w)) = None \<and> collectMetrics cfg s w = Inl err"
  then show "snd (getMetrics cfg s w) = w" by (simp add: getMetrics_def no_cpu_usage_def Let_def)
next
  assume a: "cur_cpu (metrics (md w)) = None \<and> collectMetrics cfg s w = Inr m \<and> m_uptime m = Some u"
  then have g: "snd (getMetrics cfg s w) = snd (processMetrics cfg s m w)"
    by (simp add: getMetrics_def no_cpu_usage_def Let_def)
  from a have u: "m_uptime m = Some u" by simp
  show "metrics (md (snd (getMetrics cfg s w))) = current_of m"
    unfolding g using u by (rule processMetrics_effects)
  show "history (md (snd (getMetrics cfg s w))) =
            (if length (history (md w)) < 100 then history (md w) @ [point_of m u]
             else tl (history (md w) @ [point_of m u]))"
    unfolding g using u by (simp add: processMetrics_history)
  show "if isConnected (cn w) \<and> registered (user (conn_env s))
           then \<exists>rest. ws_log (cn (snd (getMetrics cfg s w))) =
                  ws_log (cn w) @ (metrics_message (conn_env s) m, ws_send_ok (cn w)) # rest
           else cn (snd (getMetrics cfg s w)) = cn w"
    unfolding g using processMetrics_effects(2,3) [OF u, of w s cfg] by simp
qed

lemma collect_snapshot0:
  "collectMetrics default_config sys0 world_open = Inr snapshot0"
  "collectMetrics default_config sys_registered world_open = Inr snapshot0"
  "collectMetrics default_config sys_no_cpu world_open
     = Inl ''Cannot read properties of undefined (reading 'model')''"
  by (simp_all add: collectMetrics_def default_config_def sys0_def sys_registered_def env0_def
        sys_no_cpu_def world_open_def world_usage_def initial_world_def initial_monitoringData_def
        snapshot0_def cpu_reading_def memory_reading_def disk_reading_def network_reading_def
        uptime_reading_def race_timeout_def Let_def js_num_eval)

lemma stored_usage_examples:
  "cur_cpu (metrics (md world_open)) = None"
  "cur_cpu (metrics (md (world_usage 25)))
     = Some \<lparr> cpu_usage = 25, cpu_cores = 1, cpu_model = ''cpu'', cpu_speed = 2400 \<rparr>"
  "no_cpu_usage (md world_open)"
  "\<not> no_cpu_usage (md (world_usage 25))"
  by (simp_all add: no_cpu_usage_def world_open_def world_usage_def initial_world_def
        initial_monitoringData_def)

lemma getMetrics_snapshot0:
  "snd (getMetrics default_config sys0 world_open)
     = snd (processMetrics default_config sys0 snapshot0 world_open)"
  "snd (getMetrics default_config sys_registered world_open)
     = snd (processMetrics default_config sys_registered snapshot0 world_open)"
  "snd (getMetrics default_config sys_no_cpu world_open) = world_open"
  by (simp_all add: getMetrics_def Let_def stored_usage_examples collect_snapshot0)

lemma processMetrics_snapshot0_history:
  "history (md w) = [] \<Longrightarrow>
     history (md (snd (processMetrics cfg s snapshot0 w))) = [point_of snapshot0 uptime0]"
  by (simp add: processMetrics_history snapshot0_def uptime0_def)

lemma world_examples:
  "history (md world_open) = []" "history (md (world_usage x)) = []"
  "isConnected (cn world_open)" "ws_log (cn world_open) = []" "ws_send_ok (cn world_open)"
  "registered (user (conn_env sys_registered))" "\<not> registered (user (conn_env sys0))"
  by (simp_all add: world_open_def world_usage_def initial_world_def initial_monitoringData_def
        initial_conn_def sys_registered_def sys0_def env0_def ws_send_ok_def)

text \<open>
  A stored usage of 25: nothing changes. No stored usage, open connection, registered
  user: one history point and one metrics message handed to the transport.
\<close>

theorem getMetrics_effects_witness:
  "cur_cpu (metrics (md (world_usage 25)))
     = Some \<lparr> cpu_usage = 25, cpu_cores = 1, cpu_model = ''cpu'', cpu_speed = 2400 \<rparr>
   \<and> snd (getMetrics default_config sys0 (world_usage 25)) = world_usage 25
   \<and> cur_cpu (metrics (md world_open)) = None
   \<and> collectMetrics default_config sys_registered world_open = Inr snapshot0
   \<and> m_uptime snapshot0 = Some uptime0
   \<and> metrics (md (snd (getMetrics default_config sys_registered world_open)))
       = current_of snapshot0
   \<and> history (md (snd (getMetrics default_config sys_registered world_open)))
       = [point_of snapshot0 uptime0]
   \<and> (\<exists>rest. ws_log (cn (snd (getMetrics default_config sys_registered world_open)))
       = (metrics_message (conn_env sys_registered) snapshot0, True) # rest)"
  using getMetrics_effects
      [of "world_usage 25" "\<lparr> cpu_usage = 25, cpu_cores = 1, cpu_model = ''cpu'', cpu_speed = 2400 \<rparr>"
          default_config sys0 "''e''" snapshot0 uptime0]
    getMetrics_effects
      [of world_open "\<lparr> cpu_usage = 25, cpu_cores = 1, cpu_model = ''cpu'', cpu_speed = 2400 \<rparr>"
          default_config sys_registered "''e''" snapshot0 uptime0]
  by (simp add: collect_snapshot0 stored_usage_examples world_examples)
     (simp add: snapshot0_def uptime0_def)

text \<open>
  The claim as stated: with no stored usage, getMetrics performs the collection and the
  processing, and a metrics message is transmitted when the connection is open. With a
  user that is not registered nothing is handed to the transport although the connection
  is open and the snapshot was processed. On a machine that lists no cpu the collection
  throws, getMetrics catches the error, and the state is what it was: the current
  metrics are not replaced and no history point is appended.
\<close>

theorem getMetrics_not_sent_or_not_collected:
  "cur_cpu (metrics (md world_open)) = None \<and> isConnected (cn world_open)
   \<and> history (md (snd (getMetrics default_config sys0 world_open)))
       = [point_of snapshot0 uptime0]
   \<and> ws_log (cn (snd (getMetrics default_config sys0 world_open))) = []
   \<and> collectMetrics default_config sys_no_cpu world_open
       = Inl ''Cannot read properties of undefined (reading 'model')''
   \<and> snd (getMetrics default_config sys_no_cpu world_open) = world_open"
proof -
  have u: "m_uptime snapshot0 = Some uptime0" by (simp add: snapshot0_def uptime0_def)
  have "cn (snd (processMetrics default_config sys0 snapshot0 world_open)) = cn world_open"
    using u by (intro processMetrics_effects) (simp_all add: world_examples)
  then have "ws_log (cn (snd (getMetrics default_config sys0 world_open))) = []"
    by (simp add: getMetrics_snapshot0 world_examples)
  moreover have "history (md (snd (getMetrics default_config sys0 world_open)))
       = [point_of snapshot0 uptime0]"
    by (simp add: getMetrics_snapshot0 processMetrics_snapshot0_history world_examples)
  ultimately show ?thesis
    by (simp add: stored_usage_examples world_examples collect_snapshot0 getMetrics_snapshot0)
qed

end
